theory Spec2Isabelle
  imports Complex_Main "HOL-Library.Sublist"
begin

section \<open>Tensors and the TensorFlow operations used by model.py\<close>

text \<open>
  The constructor of \<open>SocialModel\<close> builds a TensorFlow graph. The model below is the
  denotation of that graph: the value every tensor takes in one run of the graph, as a
  function of the values of the dataset tensors and of the pluggable collaborators.

  A \<open>float32\<close> scalar is a finite value or one of the three non-finite values of IEEE
  arithmetic. Finite values are real numbers: rounding and the sign of zero are outside
  the model.
\<close>

datatype float32 = Finite real | PosInf | NegInf | NaN

datatype error = ValueError

type_synonym 'a result = "error + 'a"

text \<open>A rank-2 tensor is a list of rows, a rank-3 tensor a list of rank-2 tensors.\<close>

type_synonym tensor1 = "float32 list"
type_synonym tensor2 = "float32 list list"
type_synonym tensor3 = "float32 list list list"

definition bind :: "'a result \<Rightarrow> ('a \<Rightarrow> 'b result) \<Rightarrow> 'b result" where
  "bind m f = (case m of Inl e \<Rightarrow> Inl e | Inr x \<Rightarrow> f x)"

text \<open>\<open>tf.zeros([rows, cols], tf.float32)\<close>\<close>

definition tf_zeros :: "nat \<Rightarrow> nat \<Rightarrow> tensor2" where
  "tf_zeros rows cols = replicate rows (replicate cols (Finite 0))"

text \<open>
  \<open>x[:, frame]\<close> on a tensor of rank 3: the row of index \<open>frame\<close> of every slot. An
  index outside the second dimension is refused by TensorFlow.
\<close>

definition slice_frame :: "'a list list \<Rightarrow> nat \<Rightarrow> 'a list result" where
  "slice_frame x frame =
     (if list_all (\<lambda>row. frame < length row) x
      then Inr (map (\<lambda>row. row ! frame) x)
      else Inl ValueError)"

text \<open>\<open>x[:, :, frame]\<close> on a tensor of rank 3.\<close>

definition slice_mask :: "'a list list list \<Rightarrow> nat \<Rightarrow> 'a list list result" where
  "slice_mask x frame =
     (if list_all (list_all (\<lambda>v. frame < length v)) x
      then Inr (map (map (\<lambda>v. v ! frame)) x)
      else Inl ValueError)"

text \<open>
  Python slices with one bound, which TensorFlow's strided slice follows: a negative
  bound counts from the end, and a bound outside the list is clamped, never refused.
\<close>

definition py_slice_from :: "int \<Rightarrow> 'a list \<Rightarrow> 'a list" where
  "py_slice_from b xs =
     (let n = int (length xs);
          b' = (if b < 0 then max 0 (n + b) else min b n)
      in drop (nat b') xs)"

definition py_slice_to :: "int \<Rightarrow> 'a list \<Rightarrow> 'a list" where
  "py_slice_to e xs =
     (let n = int (length xs);
          e' = (if e < 0 then max 0 (n + e) else min e n)
      in take (nat e') xs)"

subsection \<open>Arithmetic on float32\<close>

fun tf_add :: "float32 \<Rightarrow> float32 \<Rightarrow> float32" where
  "tf_add NaN _ = NaN"
| "tf_add _ NaN = NaN"
| "tf_add (Finite a) (Finite b) = Finite (a + b)"
| "tf_add PosInf NegInf = NaN"
| "tf_add NegInf PosInf = NaN"
| "tf_add PosInf _ = PosInf"
| "tf_add _ PosInf = PosInf"
| "tf_add NegInf _ = NegInf"
| "tf_add _ NegInf = NegInf"

fun tf_neg :: "float32 \<Rightarrow> float32" where
  "tf_neg (Finite a) = Finite (- a)"
| "tf_neg PosInf = NegInf"
| "tf_neg NegInf = PosInf"
| "tf_neg NaN = NaN"

fun tf_sign :: "float32 \<Rightarrow> int" where
  "tf_sign (Finite a) = (if a < 0 then - 1 else if a = 0 then 0 else 1)"
| "tf_sign PosInf = 1"
| "tf_sign NegInf = - 1"
| "tf_sign NaN = 0"

fun tf_mul :: "float32 \<Rightarrow> float32 \<Rightarrow> float32" where
  "tf_mul NaN _ = NaN"
| "tf_mul _ NaN = NaN"
| "tf_mul (Finite a) (Finite b) = Finite (a * b)"
| "tf_mul x y =
     (if tf_sign x * tf_sign y = 0 then NaN
      else if tf_sign x * tf_sign y < 0 then NegInf else PosInf)"

text \<open>
  \<open>tf.div\<close> on float32 operands is IEEE division: a zero divisor gives a non-finite
  value, never an error.
\<close>

fun tf_div :: "float32 \<Rightarrow> float32 \<Rightarrow> float32" where
  "tf_div NaN _ = NaN"
| "tf_div _ NaN = NaN"
| "tf_div (Finite a) (Finite b) =
     (if b = 0 then (if a = 0 then NaN else if a < 0 then NegInf else PosInf)
      else Finite (a / b))"
| "tf_div (Finite a) _ = Finite 0"
| "tf_div x (Finite b) = (if b < 0 then tf_neg x else x)"
| "tf_div _ _ = NaN"

text \<open>\<open>tf.cast(n, tf.float32)\<close> of an integer scalar.\<close>

definition tf_cast :: "int \<Rightarrow> float32" where
  "tf_cast n = Finite (of_int n)"

definition is_finite :: "float32 \<Rightarrow> bool" where
  "is_finite x = (case x of Finite _ \<Rightarrow> True | _ \<Rightarrow> False)"

text \<open>\<open>tf.reduce_sum\<close> of a list of scalars, and \<open>tf.add_n\<close>, which refuses an empty list.\<close>

definition tf_sum :: "float32 list \<Rightarrow> float32" where
  "tf_sum xs = foldl tf_add (Finite 0) xs"

definition tf_add_n :: "float32 list \<Rightarrow> float32 result" where
  "tf_add_n xs = (case xs of [] \<Rightarrow> Inl ValueError | y # ys \<Rightarrow> Inr (foldl tf_add y ys))"

text \<open>\<open>tf.nn.l2_loss(v)\<close> is \<open>sum(v ** 2) / 2\<close>, on the flattened values of \<open>v\<close>.\<close>

definition l2_loss :: "tensor1 \<Rightarrow> float32" where
  "l2_loss v = tf_div (tf_sum (map (\<lambda>x. tf_mul x x) v)) (Finite 2)"

text \<open>
  \<open>tf.stack(values)\<close>: the tensors must have one shape. An empty list is stacked to a
  tensor of rank 1, which the slice over two axes of the loss then refuses; the model
  reports that failure here.
\<close>

definition tf_stack :: "'p list list \<Rightarrow> 'p list list result" where
  "tf_stack values =
     (case values of
        [] \<Rightarrow> Inl ValueError
      | v # vs \<Rightarrow> if list_all (\<lambda>w. length w = length v) vs then Inr values else Inl ValueError)"

section \<open>The data of SocialModel\<close>

text \<open>The state of one LSTM cell bank: \<open>LSTMStateTuple(c, h)\<close>.\<close>

datatype LSTMStateTuple = LSTMStateTuple (c_state: tensor2) (h_state: tensor2)

text \<open>\<open>cell.zero_state(batch_size, tf.float32)\<close> of an LSTM cell of \<open>num_units\<close> units.\<close>

definition zero_state :: "nat \<Rightarrow> nat \<Rightarrow> LSTMStateTuple" where
  "zero_state num_units batch_size =
     LSTMStateTuple (tf_zeros batch_size num_units) (tf_zeros batch_size num_units)"

text \<open>The five tensors of \<open>dataset.tensors\<close>, in their order.\<close>

record dataset =
  input_data :: tensor3
  peds_mask :: tensor3
  num_peds_frame :: int
  all_peds :: tensor3
  all_peds_mask :: tensor3

text \<open>
  The arguments of the constructor that the forward pass reads. The two sizes are
  dimensions of tensors, the other two are Python integers that the code negates or
  decrements.
\<close>

record hyper =
  lstm_size :: nat
  max_num_ped :: nat
  prediction_time :: int
  trajectory_size :: int
  l2_norm :: real

text \<open>
  What \<open>decoder.initialize\<close> receives, in the order of the call: the five positional
  arguments, then \<open>hidden_states\<close>, \<open>peds_mask\<close> and \<open>all_peds_mask\<close>.
\<close>

record decoder_call =
  arg_frame :: nat
  arg_coordinates_preprocessed :: tensor2
  arg_new_coordinates_processed :: "tensor2 option"
  arg_cell_states :: LSTMStateTuple
  arg_all_peds_preprocessed :: tensor2
  arg_hidden_states :: tensor2
  arg_peds_mask :: tensor2
  arg_all_peds_mask :: tensor2

text \<open>
  The collaborators of the loop. \<open>'r\<close> is what one run of the graph supplies to the
  stochastic operations of a collaborator; a deterministic collaborator ignores it.
  \<open>'p\<close> is what \<open>position_estimate\<close> returns for one pedestrian slot.
  \<open>coordinates_layer\<close> is the dense layer with its current weights, \<open>decoder\<close> is
  \<open>decoder.initialize\<close> followed by \<open>decoder.step\<close>.
\<close>

record ('r, 'p) collaborators =
  coordinates_layer :: "tensor2 \<Rightarrow> tensor2"
  decoder :: "'r \<Rightarrow> decoder_call \<Rightarrow> tensor2 \<times> LSTMStateTuple \<times> tensor2"
  position_estimate ::
    "'r \<Rightarrow> tensor2 \<Rightarrow> tensor2 \<Rightarrow> nat \<Rightarrow> (tensor2 \<Rightarrow> tensor2) \<Rightarrow> 'p list \<times> tensor2"
  loss_function :: "'r \<Rightarrow> 'p list list \<Rightarrow> float32"

text \<open>The variables that the loop of the constructor reassigns.\<close>

record 'p loop_state =
  new_coordinates :: "'p list list"
  new_coordinates_processed :: "tensor2 option"
  cell_output :: tensor2
  cell_states :: LSTMStateTuple

definition output_size :: nat where
  "output_size = 5"

section \<open>The unrolled loop\<close>

text \<open>Lines 66 to 87: the state before the first frame.\<close>

definition initial_state :: "hyper \<Rightarrow> 'p loop_state" where
  "initial_state hp =
     \<lparr>new_coordinates = [],
      new_coordinates_processed = None,
      cell_output = tf_zeros (max_num_ped hp) (lstm_size hp),
      cell_states = zero_state (lstm_size hp) (max_num_ped hp)\<rparr>"

text \<open>Lines 116 to 134: the arguments of \<open>decoder.initialize\<close> at one frame.\<close>

definition initialize ::
  "('r, 'p) collaborators \<Rightarrow> dataset \<Rightarrow> nat \<Rightarrow> 'p loop_state \<Rightarrow> decoder_call result" where
  "initialize cb ds frame st =
     bind (slice_frame (input_data ds) frame) (\<lambda>real_coordinates.
     bind (slice_frame (all_peds ds) frame) (\<lambda>all_coordinates.
     bind (slice_mask (peds_mask ds) frame) (\<lambda>frame_mask.
     bind (slice_mask (all_peds_mask ds) frame) (\<lambda>all_mask.
       Inr \<lparr>arg_frame = frame,
            arg_coordinates_preprocessed = coordinates_layer cb real_coordinates,
            arg_new_coordinates_processed = new_coordinates_processed st,
            arg_cell_states = cell_states st,
            arg_all_peds_preprocessed = coordinates_layer cb all_coordinates,
            arg_hidden_states = cell_output st,
            arg_peds_mask = frame_mask,
            arg_all_peds_mask = all_mask\<rparr>))))"

text \<open>Lines 116 to 150: the body of the loop.\<close>

definition decode_frame ::
  "('r, 'p) collaborators \<Rightarrow> dataset \<Rightarrow> 'r \<Rightarrow> nat \<Rightarrow> 'p loop_state \<Rightarrow> 'p loop_state result" where
  "decode_frame cb ds \<rho> frame st =
     bind (initialize cb ds frame st) (\<lambda>call.
       case decoder cb \<rho> call of (output, states, layered_output) \<Rightarrow>
     bind (slice_frame (input_data ds) (frame + 1)) (\<lambda>next_coordinates.
       case position_estimate cb \<rho> layered_output next_coordinates output_size
              (coordinates_layer cb) of
         (coordinates, processed) \<Rightarrow>
           Inr \<lparr>new_coordinates = new_coordinates st @ [coordinates],
                new_coordinates_processed = Some processed,
                cell_output = output,
                cell_states = states\<rparr>))"

fun decode_frames ::
  "('r, 'p) collaborators \<Rightarrow> dataset \<Rightarrow> 'r \<Rightarrow> nat list \<Rightarrow> 'p loop_state \<Rightarrow> 'p loop_state result" where
  "decode_frames cb ds \<rho> [] st = Inr st"
| "decode_frames cb ds \<rho> (frame # frames) st =
     bind (decode_frame cb ds \<rho> frame st) (decode_frames cb ds \<rho> frames)"

text \<open>\<open>range(n)\<close> for a Python integer \<open>n\<close>: empty when \<open>n\<close> is not positive.\<close>

definition py_range :: "int \<Rightarrow> nat list" where
  "py_range n = [0..<nat n]"

text \<open>Lines 114 to 150: the loop over \<open>range(trajectory_size - 1)\<close>.\<close>

definition unroll ::
  "hyper \<Rightarrow> ('r, 'p) collaborators \<Rightarrow> dataset \<Rightarrow> 'r \<Rightarrow> 'p loop_state result" where
  "unroll hp cb ds \<rho> =
     decode_frames cb ds \<rho> (py_range (trajectory_size hp - 1)) (initial_state hp)"

text \<open>The state in which the frame of index \<open>k\<close> starts.\<close>

definition state_before ::
  "hyper \<Rightarrow> ('r, 'p) collaborators \<Rightarrow> dataset \<Rightarrow> 'r \<Rightarrow> nat \<Rightarrow> 'p loop_state result" where
  "state_before hp cb ds \<rho> k = decode_frames cb ds \<rho> [0..<k] (initial_state hp)"

section \<open>The loss\<close>

text \<open>Line 157: \<open>self.new_coordinates[-prediction_time:, : self.num_peds_frame]\<close>.\<close>

definition loss_slice :: "hyper \<Rightarrow> dataset \<Rightarrow> 'p list list \<Rightarrow> 'p list list" where
  "loss_slice hp ds stacked =
     map (py_slice_to (num_peds_frame ds)) (py_slice_from (- prediction_time hp) stacked)"

text \<open>Lines 155 to 159: the scope \<open>Calculate_loss\<close>.\<close>

definition Calculate_loss ::
  "hyper \<Rightarrow> ('r, 'p) collaborators \<Rightarrow> dataset \<Rightarrow> 'r \<Rightarrow> 'p list list \<Rightarrow> float32" where
  "Calculate_loss hp cb ds \<rho> stacked =
     tf_div (loss_function cb \<rho> (loss_slice hp ds stacked)) (tf_cast (num_peds_frame ds))"

text \<open>
  Lines 162 to 166. \<open>tvars\<close> is \<open>tf.trainable_variables()\<close>: the name and the flattened
  value of every trainable variable of the graph.
\<close>

definition weights_regularization :: "hyper \<Rightarrow> (string \<times> tensor1) list \<Rightarrow> float32 result" where
  "weights_regularization hp tvars =
     bind (tf_add_n (map (\<lambda>v. l2_loss (snd v)) (filter (\<lambda>v. \<not> sublist ''bias'' (fst v)) tvars)))
       (\<lambda>total. Inr (tf_mul total (Finite (l2_norm hp))))"

text \<open>Lines 153 to 167: from the list of predictions to \<open>self.loss\<close>.\<close>

definition final_loss ::
  "hyper \<Rightarrow> ('r, 'p) collaborators \<Rightarrow> dataset \<Rightarrow> (string \<times> tensor1) list \<Rightarrow> 'r \<Rightarrow>
   'p list list \<Rightarrow> float32 result" where
  "final_loss hp cb ds tvars \<rho> stacked =
     bind (weights_regularization hp tvars) (\<lambda>l2.
       Inr (tf_add (Calculate_loss hp cb ds \<rho> stacked) l2))"

text \<open>
  Lines 114 to 167: the forward pass, which gives \<open>self.new_coordinates\<close> after
  stacking and \<open>self.loss\<close>.
\<close>

definition SocialModel ::
  "hyper \<Rightarrow> ('r, 'p) collaborators \<Rightarrow> dataset \<Rightarrow> (string \<times> tensor1) list \<Rightarrow> 'r \<Rightarrow>
   ('p list list \<times> float32) result" where
  "SocialModel hp cb ds tvars \<rho> =
     bind (unroll hp cb ds \<rho>) (\<lambda>st.
     bind (tf_stack (new_coordinates st)) (\<lambda>stacked.
     bind (final_loss hp cb ds tvars \<rho> stacked) (\<lambda>loss.
       Inr (stacked, loss))))"

text \<open>The number of steps of the stacked predictions that reach the loss function.\<close>

definition sliced_steps ::
  "hyper \<Rightarrow> ('r, 'p) collaborators \<Rightarrow> dataset \<Rightarrow> 'r \<Rightarrow> nat result" where
  "sliced_steps hp cb ds \<rho> =
     bind (unroll hp cb ds \<rho>) (\<lambda>st.
     bind (tf_stack (new_coordinates st)) (\<lambda>stacked.
       Inr (length (loss_slice hp ds stacked))))"

section \<open>The step decoder and the reference collaborators\<close>

text \<open>
  Modelled from the spec: the class \<open>trajectory_decoders.SocialDecoder\<close>, which
  model.py instantiates and calls, is not among the sources. Section 4.3 of the spec
  gives one step: the helper selects the input from the frame index, the previously
  predicted embedding and the embedding of the real coordinates; a configured pooling
  strategy maps the hidden states and the mask of the frame to a context that is
  concatenated to the selected input; the cell advances; the output layer projects the
  new hidden output.
\<close>

definition input_selection ::
  "('r \<Rightarrow> nat \<Rightarrow> tensor2 option \<Rightarrow> tensor2 \<Rightarrow> tensor2) \<Rightarrow> 'r \<Rightarrow> decoder_call \<Rightarrow> tensor2" where
  "input_selection helper \<rho> call =
     helper \<rho> (arg_frame call) (arg_new_coordinates_processed call)
       (arg_coordinates_preprocessed call)"

definition context_pooling ::
  "('r \<Rightarrow> tensor2 \<Rightarrow> tensor2 \<Rightarrow> tensor2) option \<Rightarrow> 'r \<Rightarrow> decoder_call \<Rightarrow> tensor2 \<Rightarrow> tensor2" where
  "context_pooling pooling_module \<rho> call selected =
     (case pooling_module of
        None \<Rightarrow> selected
      | Some pool \<Rightarrow>
          map2 (@) selected (pool \<rho> (arg_hidden_states call) (arg_peds_mask call)))"

definition SocialDecoder ::
  "(tensor2 \<Rightarrow> LSTMStateTuple \<Rightarrow> tensor2 \<times> LSTMStateTuple) \<Rightarrow>
   ('r \<Rightarrow> nat \<Rightarrow> tensor2 option \<Rightarrow> tensor2 \<Rightarrow> tensor2) \<Rightarrow>
   ('r \<Rightarrow> tensor2 \<Rightarrow> tensor2 \<Rightarrow> tensor2) option \<Rightarrow>
   (tensor2 \<Rightarrow> tensor2) \<Rightarrow>
   'r \<Rightarrow> decoder_call \<Rightarrow> tensor2 \<times> LSTMStateTuple \<times> tensor2" where
  "SocialDecoder cell helper pooling_module output_layer \<rho> call =
     (case cell (context_pooling pooling_module \<rho> call (input_selection helper \<rho> call))
             (arg_cell_states call) of
        (output, states) \<Rightarrow> (output, states, output_layer output))"

text \<open>
  The stand-in collaborators of the scenarios of section 8 of the spec: a helper that
  always returns the ground truth; a helper that feeds the previous prediction back and
  returns the ground truth when there is none; a pooling strategy that returns zeros; a
  position estimate that returns the real next coordinates verbatim, with their
  embedding.
\<close>

definition ground_truth_helper :: "'r \<Rightarrow> nat \<Rightarrow> tensor2 option \<Rightarrow> tensor2 \<Rightarrow> tensor2" where
  "ground_truth_helper \<rho> frame previous truth = truth"

definition self_feeding_helper :: "'r \<Rightarrow> nat \<Rightarrow> tensor2 option \<Rightarrow> tensor2 \<Rightarrow> tensor2" where
  "self_feeding_helper \<rho> frame previous truth =
     (case previous of None \<Rightarrow> truth | Some predicted \<Rightarrow> predicted)"

definition zero_pooling :: "nat \<Rightarrow> 'r \<Rightarrow> tensor2 \<Rightarrow> tensor2 \<Rightarrow> tensor2" where
  "zero_pooling width \<rho> hidden frame_mask = tf_zeros (length hidden) width"

definition verbatim_position_estimate ::
  "'r \<Rightarrow> tensor2 \<Rightarrow> tensor2 \<Rightarrow> nat \<Rightarrow> (tensor2 \<Rightarrow> tensor2) \<Rightarrow> tensor1 list \<times> tensor2" where
  "verbatim_position_estimate \<rho> params next_coordinates width embedding =
     (next_coordinates, embedding next_coordinates)"

text \<open>A loss function that adds up every value of the slice it receives.\<close>

definition sum_loss :: "'r \<Rightarrow> tensor1 list list \<Rightarrow> float32" where
  "sum_loss \<rho> slice = tf_sum (concat (concat slice))"

text \<open>
  Stand-ins for the TensorFlow layers and for the decoder, for concrete runs: a dense
  layer with zero weights, a cell that returns its state unchanged, and a decoder that
  returns the hidden states and the cell states it was given.
\<close>

definition zero_layer :: "nat \<Rightarrow> tensor2 \<Rightarrow> tensor2" where
  "zero_layer units x = tf_zeros (length x) units"

definition idle_cell :: "tensor2 \<Rightarrow> LSTMStateTuple \<Rightarrow> tensor2 \<times> LSTMStateTuple" where
  "idle_cell x state = (h_state state, state)"

definition idle_decoder ::
  "'r \<Rightarrow> decoder_call \<Rightarrow> tensor2 \<times> LSTMStateTuple \<times> tensor2" where
  "idle_decoder \<rho> call =
     (arg_hidden_states call, arg_cell_states call,
      tf_zeros (length (arg_hidden_states call)) output_size)"

definition plain_collaborators :: "(unit, tensor1) collaborators" where
  "plain_collaborators =
     \<lparr>coordinates_layer = zero_layer 3,
      decoder = idle_decoder,
      position_estimate = verbatim_position_estimate,
      loss_function = sum_loss\<rparr>"

text \<open>The collaborators of the end-to-end scenario, around the decoder of the spec.\<close>

definition reference_collaborators :: "(unit, tensor1) collaborators" where
  "reference_collaborators =
     \<lparr>coordinates_layer = zero_layer 3,
      decoder = SocialDecoder idle_cell ground_truth_helper (Some (zero_pooling 4))
                  (zero_layer output_size),
      position_estimate = verbatim_position_estimate,
      loss_function = sum_loss\<rparr>"

text \<open>
  Collaborators that show what the decoder was given: the layer returns the coordinates
  themselves, the helper feeds the previous prediction back, there is no pooling, and
  the cell returns its input as the hidden output.
\<close>

definition identity_layer :: "tensor2 \<Rightarrow> tensor2" where
  "identity_layer x = x"

definition echo_cell :: "tensor2 \<Rightarrow> LSTMStateTuple \<Rightarrow> tensor2 \<times> LSTMStateTuple" where
  "echo_cell x state = (x, state)"

definition echo_collaborators :: "(unit, tensor1) collaborators" where
  "echo_collaborators =
     \<lparr>coordinates_layer = identity_layer,
      decoder = SocialDecoder echo_cell self_feeding_helper None (zero_layer output_size),
      position_estimate = verbatim_position_estimate,
      loss_function = sum_loss\<rparr>"

text \<open>
  Collaborators of runs that draw a natural number: one set that ignores it, and one
  whose position estimate adds it to the first coordinate of every slot.
\<close>

definition seeded_collaborators :: "(nat, tensor1) collaborators" where
  "seeded_collaborators =
     \<lparr>coordinates_layer = zero_layer 3,
      decoder = idle_decoder,
      position_estimate = verbatim_position_estimate,
      loss_function = sum_loss\<rparr>"

definition noisy_position_estimate ::
  "nat \<Rightarrow> tensor2 \<Rightarrow> tensor2 \<Rightarrow> nat \<Rightarrow> (tensor2 \<Rightarrow> tensor2) \<Rightarrow> tensor1 list \<times> tensor2" where
  "noisy_position_estimate \<rho> params next_coordinates width embedding =
     (map (\<lambda>row. case row of [] \<Rightarrow> [] | x # rest \<Rightarrow> tf_add x (Finite (of_nat \<rho>)) # rest)
        next_coordinates,
      embedding next_coordinates)"

definition noisy_collaborators :: "(nat, tensor1) collaborators" where
  "noisy_collaborators = seeded_collaborators\<lparr>position_estimate := noisy_position_estimate\<rparr>"

section \<open>Shapes and contracts\<close>

text \<open>Every slot of the dataset has \<open>trajectory_size\<close> frames.\<close>

definition has_frames :: "hyper \<Rightarrow> dataset \<Rightarrow> bool" where
  "has_frames hp ds =
     (list_all (\<lambda>row. int (length row) = trajectory_size hp) (input_data ds) \<and>
      list_all (\<lambda>row. int (length row) = trajectory_size hp) (all_peds ds) \<and>
      list_all (list_all (\<lambda>v. int (length v) = trajectory_size hp)) (peds_mask ds) \<and>
      list_all (list_all (\<lambda>v. int (length v) = trajectory_size hp)) (all_peds_mask ds))"

definition has_shape :: "nat \<Rightarrow> nat \<Rightarrow> tensor2 \<Rightarrow> bool" where
  "has_shape rows cols x = (length x = rows \<and> list_all (\<lambda>row. length row = cols) x)"

definition state_shape :: "nat \<Rightarrow> nat \<Rightarrow> LSTMStateTuple \<Rightarrow> bool" where
  "state_shape rows cols state =
     (has_shape rows cols (c_state state) \<and> has_shape rows cols (h_state state))"

text \<open>
  The contract of \<open>tf.nn.rnn_cell.LSTMCell\<close> with \<open>units\<close> units: on an input of
  \<open>batch\<close> rows and a state of shape [batch, units] it returns an output and a state
  of that shape.
\<close>

definition cell_contract ::
  "nat \<Rightarrow> nat \<Rightarrow> (tensor2 \<Rightarrow> LSTMStateTuple \<Rightarrow> tensor2 \<times> LSTMStateTuple) \<Rightarrow> bool" where
  "cell_contract batch units cell =
     (\<forall>x state. length x = batch \<and> state_shape batch units state \<longrightarrow>
        has_shape batch units (fst (cell x state)) \<and>
        state_shape batch units (snd (cell x state)))"

text \<open>The collaborators return one row for every pedestrian slot they are given.\<close>

definition layer_contract :: "(tensor2 \<Rightarrow> tensor2) \<Rightarrow> bool" where
  "layer_contract layer = (\<forall>x. length (layer x) = length x)"

definition helper_contract ::
  "nat \<Rightarrow> ('r \<Rightarrow> nat \<Rightarrow> tensor2 option \<Rightarrow> tensor2 \<Rightarrow> tensor2) \<Rightarrow> bool" where
  "helper_contract batch helper =
     (\<forall>\<rho> frame previous truth.
        length truth = batch \<and> (\<forall>predicted. previous = Some predicted \<longrightarrow> length predicted = batch)
        \<longrightarrow> length (helper \<rho> frame previous truth) = batch)"

definition pooling_contract ::
  "nat \<Rightarrow> ('r \<Rightarrow> tensor2 \<Rightarrow> tensor2 \<Rightarrow> tensor2) option \<Rightarrow> bool" where
  "pooling_contract batch pooling_module =
     (\<forall>pool \<rho> hidden frame_mask.
        pooling_module = Some pool \<and> length hidden = batch
        \<longrightarrow> length (pool \<rho> hidden frame_mask) = batch)"

definition estimate_contract ::
  "nat \<Rightarrow> ('r \<Rightarrow> tensor2 \<Rightarrow> tensor2 \<Rightarrow> nat \<Rightarrow> (tensor2 \<Rightarrow> tensor2) \<Rightarrow> 'p list \<times> tensor2) \<Rightarrow> bool" where
  "estimate_contract batch estimate =
     (\<forall>\<rho> params next_coordinates width embedding.
        length next_coordinates = batch \<and> layer_contract embedding
        \<longrightarrow> length (snd (estimate \<rho> params next_coordinates width embedding)) = batch)"

text \<open>The position estimate returns one prediction for every pedestrian slot.\<close>

definition slot_contract ::
  "('r \<Rightarrow> tensor2 \<Rightarrow> tensor2 \<Rightarrow> nat \<Rightarrow> (tensor2 \<Rightarrow> tensor2) \<Rightarrow> 'p list \<times> tensor2) \<Rightarrow> bool" where
  "slot_contract estimate =
     (\<forall>\<rho> params next_coordinates width embedding.
        length (fst (estimate \<rho> params next_coordinates width embedding)) =
          length next_coordinates)"

text \<open>A collaborator is deterministic when its result is the same in every run.\<close>

definition deterministic :: "('r \<Rightarrow> 'a) \<Rightarrow> bool" where
  "deterministic f = (\<forall>\<rho> \<rho>'. f \<rho> = f \<rho>')"

section \<open>The loss as the specification words it\<close>

text \<open>The last \<open>p\<close> steps of a sequence and the first \<open>n\<close> slots of every step.\<close>

definition last_steps :: "nat \<Rightarrow> 'a list \<Rightarrow> 'a list" where
  "last_steps p xs = drop (length xs - p) xs"

definition first_slots :: "nat \<Rightarrow> 'a list list \<Rightarrow> 'a list list" where
  "first_slots n xs = map (take n) xs"

definition squared_norm :: "tensor1 \<Rightarrow> float32" where
  "squared_norm v = tf_sum (map (\<lambda>x. tf_mul x x) v)"

definition not_bias :: "(string \<times> tensor1) list \<Rightarrow> tensor1 list" where
  "not_bias tvars = map snd (filter (\<lambda>v. \<not> sublist ''bias'' (fst v)) tvars)"

definition normalized_loss ::
  "hyper \<Rightarrow> ('r, 'p) collaborators \<Rightarrow> dataset \<Rightarrow> 'r \<Rightarrow> 'p list list \<Rightarrow> float32" where
  "normalized_loss hp cb ds \<rho> stacked =
     tf_div
       (loss_function cb \<rho>
          (first_slots (nat (num_peds_frame ds)) (last_steps (nat (prediction_time hp)) stacked)))
       (tf_cast (num_peds_frame ds))"

text \<open>The regularization weighs the squared norms themselves.\<close>

definition loss_with_squared_norms ::
  "hyper \<Rightarrow> ('r, 'p) collaborators \<Rightarrow> dataset \<Rightarrow> (string \<times> tensor1) list \<Rightarrow> 'r \<Rightarrow>
   'p list list \<Rightarrow> float32" where
  "loss_with_squared_norms hp cb ds tvars \<rho> stacked =
     tf_add (normalized_loss hp cb ds \<rho> stacked)
       (tf_mul (Finite (l2_norm hp)) (tf_sum (map squared_norm (not_bias tvars))))"

text \<open>The regularization weighs half of every squared norm.\<close>

definition loss_with_half_squared_norms ::
  "hyper \<Rightarrow> ('r, 'p) collaborators \<Rightarrow> dataset \<Rightarrow> (string \<times> tensor1) list \<Rightarrow> 'r \<Rightarrow>
   'p list list \<Rightarrow> float32" where
  "loss_with_half_squared_norms hp cb ds tvars \<rho> stacked =
     tf_add (normalized_loss hp cb ds \<rho> stacked)
       (tf_mul (Finite (l2_norm hp))
          (tf_sum (map (\<lambda>v. tf_div (squared_norm v) (Finite 2)) (not_bias tvars))))"


section \<open>Concrete runs\<close>

definition small_hyper :: hyper where
  "small_hyper =
     \<lparr>lstm_size = 4, max_num_ped = 2, prediction_time = 2, trajectory_size = 3, l2_norm = 0\<rparr>"

text \<open>
  Two pedestrians and three frames: the first pedestrian walks from (0, 1) over (2, 3)
  to (4, 5), the second from (10, 11) over (12, 13) to (14, 15).
\<close>

definition small_trajectories :: tensor3 where
  "small_trajectories =
     [[[Finite 0, Finite 1], [Finite 2, Finite 3], [Finite 4, Finite 5]],
      [[Finite 10, Finite 11], [Finite 12, Finite 13], [Finite 14, Finite 15]]]"

definition ones_mask :: tensor3 where
  "ones_mask = replicate 2 (replicate 2 (replicate 3 (Finite 1)))"

definition small_dataset :: dataset where
  "small_dataset =
     \<lparr>input_data = small_trajectories,
      peds_mask = ones_mask,
      num_peds_frame = 2,
      all_peds = small_trajectories,
      all_peds_mask = ones_mask\<rparr>"

definition small_tvars :: "(string \<times> tensor1) list" where
  "small_tvars = [(''LSTM/Cell/kernel:0'', [Finite 1]), (''LSTM/Cell/bias:0'', [Finite 3])]"

text \<open>
  Variants of the small run: no frame or eight frames to predict, no pedestrian or one
  pedestrian in the frame, a weighted regularization, other values in the padding slot,
  and trajectories of a single frame.
\<close>

definition zero_time_hyper :: hyper where
  "zero_time_hyper = small_hyper\<lparr>prediction_time := 0\<rparr>"

definition empty_frame_dataset :: dataset where
  "empty_frame_dataset = small_dataset\<lparr>num_peds_frame := 0\<rparr>"

definition regularized_hyper :: hyper where
  "regularized_hyper = small_hyper\<lparr>l2_norm := 1\<rparr>"

definition long_time_hyper :: hyper where
  "long_time_hyper = small_hyper\<lparr>prediction_time := 8\<rparr>"

definition single_ped_dataset :: dataset where
  "single_ped_dataset = small_dataset\<lparr>num_peds_frame := 1\<rparr>"

definition padded_predictions :: "tensor1 list list" where
  "padded_predictions =
     [[[Finite 2, Finite 3], [Finite 7, Finite 9]],
      [[Finite 4, Finite 5], [Finite (- 3), Finite 5]]]"

definition short_hyper :: hyper where
  "short_hyper = long_time_hyper\<lparr>trajectory_size := 1\<rparr>"

definition short_dataset :: dataset where
  "short_dataset =
     \<lparr>input_data = [[[Finite 0, Finite 1]], [[Finite 10, Finite 11]]],
      peds_mask = replicate 2 (replicate 2 [Finite 1]),
      num_peds_frame = 2,
      all_peds = [[[Finite 0, Finite 1]], [[Finite 10, Finite 11]]],
      all_peds_mask = replicate 2 (replicate 2 [Finite 1])\<rparr>"

definition small_predictions :: "tensor1 list list" where
  "small_predictions =
     [[[Finite 2, Finite 3], [Finite 12, Finite 13]],
      [[Finite 4, Finite 5], [Finite 14, Finite 15]]]"

section \<open>The loop: one prediction for every frame\<close>

lemma bind_Inr [simp]: "bind (Inr x) f = f x"
  by (simp add: bind_def)

lemma bind_Inl [simp]: "bind (Inl e) f = Inl e"
  by (simp add: bind_def)

lemma bind_eq_Inr: "bind m f = Inr y \<longleftrightarrow> (\<exists>x. m = Inr x \<and> f x = Inr y)"
  by (cases m) simp_all

lemma decode_frames_append:
  "decode_frames cb ds \<rho> (xs @ ys) st =
     bind (decode_frames cb ds \<rho> xs st) (decode_frames cb ds \<rho> ys)"
proof (induction xs arbitrary: st)
  case Nil
  show ?case by simp
next
  case (Cons x xs)
  show ?case
    by (cases "decode_frame cb ds \<rho> x st") (simp_all add: Cons.IH)
qed

lemma slice_frame_ok:
  "list_all (\<lambda>row. int (length row) = T) x \<Longrightarrow> int k < T \<Longrightarrow>
   slice_frame x k = Inr (map (\<lambda>row. row ! k) x)"
  by (auto simp: slice_frame_def list_all_iff)

lemma slice_mask_ok:
  "list_all (list_all (\<lambda>v. int (length v) = T)) x \<Longrightarrow> int k < T \<Longrightarrow>
   slice_mask x k = Inr (map (map (\<lambda>v. v ! k)) x)"
  by (fastforce simp: slice_mask_def list_all_iff)

lemma initialize_ok:
  assumes "has_frames hp ds" and "int k < trajectory_size hp"
  shows "\<exists>call. initialize cb ds k st = Inr call"
  using assms
  by (simp add: initialize_def has_frames_def
      slice_frame_ok [where T = "trajectory_size hp"]
      slice_mask_ok [where T = "trajectory_size hp"])

lemma decode_frame_ok:
  assumes "has_frames hp ds" and "int k + 1 < trajectory_size hp"
  shows "\<exists>st'. decode_frame cb ds \<rho> k st = Inr st'"
proof -
  from assms obtain call where c: "initialize cb ds k st = Inr call"
    using initialize_ok [of hp ds k cb st] by auto
  from assms have n: "slice_frame (input_data ds) (k + 1) = Inr (map (\<lambda>row. row ! (k + 1)) (input_data ds))"
    by (intro slice_frame_ok [where T = "trajectory_size hp"]) (simp_all add: has_frames_def)
  show ?thesis
    by (cases "decoder cb \<rho> call";
        cases "position_estimate cb \<rho> (snd (snd (decoder cb \<rho> call)))
                 (map (\<lambda>row. row ! (k + 1)) (input_data ds)) output_size (coordinates_layer cb)")
       (use n in \<open>simp add: decode_frame_def c\<close>)
qed

lemma decode_frame_appends:
  assumes "decode_frame cb ds \<rho> k st = Inr st'"
  shows "\<exists>p. new_coordinates st' = new_coordinates st @ [p]"
proof -
  from assms obtain call where c: "initialize cb ds k st = Inr call"
    by (auto simp: decode_frame_def bind_eq_Inr)
  obtain out states lay where d: "decoder cb \<rho> call = (out, states, lay)"
    by (cases "decoder cb \<rho> call") auto
  from assms c d obtain nxt where n: "slice_frame (input_data ds) (k + 1) = Inr nxt"
    by (auto simp: decode_frame_def bind_eq_Inr)
  obtain p e where pe:
    "position_estimate cb \<rho> lay nxt output_size (coordinates_layer cb) = (p, e)"
    by (cases "position_estimate cb \<rho> lay nxt output_size (coordinates_layer cb)") auto
  from assms c d n pe show ?thesis
    by (auto simp: decode_frame_def)
qed

lemma decode_frames_extends:
  "decode_frames cb ds \<rho> frames st = Inr st' \<Longrightarrow>
   \<exists>ps. new_coordinates st' = new_coordinates st @ ps \<and> length ps = length frames"
proof (induction frames arbitrary: st)
  case Nil
  then show ?case by simp
next
  case (Cons k frames)
  from Cons.prems obtain s1 where
    s1: "decode_frame cb ds \<rho> k st = Inr s1" and
    rest: "decode_frames cb ds \<rho> frames s1 = Inr st'"
    by (auto simp: bind_eq_Inr)
  from decode_frame_appends [OF s1] obtain p where
    p: "new_coordinates s1 = new_coordinates st @ [p]" by blast
  from Cons.IH [OF rest] obtain ps where
    ps: "new_coordinates st' = new_coordinates s1 @ ps" "length ps = length frames" by blast
  show ?case
    by (rule exI [of _ "p # ps"]) (simp add: p ps)
qed

lemma decode_upto_ok:
  assumes "has_frames hp ds"
  shows "n = 0 \<or> int n < trajectory_size hp \<Longrightarrow>
         \<exists>st'. decode_frames cb ds \<rho> [0..<n] st = Inr st'"
proof (induction n)
  case 0
  show ?case by simp
next
  case (Suc n)
  then obtain s1 where s1: "decode_frames cb ds \<rho> [0..<n] st = Inr s1" by auto
  from Suc.prems have "int n + 1 < trajectory_size hp" by simp
  from decode_frame_ok [OF assms this, of cb \<rho> s1] obtain s2 where
    "decode_frame cb ds \<rho> n s1 = Inr s2" by auto
  then show ?case
    by (simp add: decode_frames_append s1)
qed


text \<open>
  C2. Whenever every slot of the dataset has \<open>trajectory_size\<close> frames, the loop
  finishes and \<open>self.new_coordinates\<close>, before stacking, has exactly
  \<open>trajectory_size - 1\<close> entries; the entry of index \<open>k\<close> is the one that the
  frame of index \<open>k\<close> appended, to the \<open>k\<close> entries of the frames before it. For
  \<open>trajectory_size \<ge> 2\<close> these are the frames 0 to \<open>trajectory_size - 2\<close>.
\<close>

theorem new_coordinates_one_per_frame:
  fixes cb :: "('r, 'p) collaborators"
  assumes "has_frames hp ds"
  shows "\<exists>st. unroll hp cb ds \<rho> = Inr st \<and>
           length (new_coordinates st) = nat (trajectory_size hp - 1) \<and>
           (\<forall>k < nat (trajectory_size hp - 1). \<exists>sk sk'.
              state_before hp cb ds \<rho> k = Inr sk \<and>
              length (new_coordinates sk) = k \<and>
              decode_frame cb ds \<rho> k sk = Inr sk' \<and>
              new_coordinates sk' = new_coordinates sk @ [new_coordinates st ! k])"
proof -
  define n where "n = nat (trajectory_size hp - 1)"
  define s0 :: "'p loop_state" where "s0 = initial_state hp"
  have s0: "new_coordinates s0 = []"
    by (simp add: s0_def initial_state_def)
  have "n = 0 \<or> int n < trajectory_size hp"
    by (auto simp: n_def)
  from decode_upto_ok [OF assms this, of cb \<rho> s0] obtain st where
    st: "decode_frames cb ds \<rho> [0..<n] s0 = Inr st" by auto
  from decode_frames_extends [OF st] have len: "length (new_coordinates st) = n"
    by (auto simp: s0)
  have each: "\<exists>sk sk'. decode_frames cb ds \<rho> [0..<k] s0 = Inr sk \<and>
                length (new_coordinates sk) = k \<and>
                decode_frame cb ds \<rho> k sk = Inr sk' \<and>
                new_coordinates sk' = new_coordinates sk @ [new_coordinates st ! k]"
    if k: "k < n" for k
  proof -
    from k have "k = 0 \<or> int k < trajectory_size hp"
      by (auto simp: n_def)
    from decode_upto_ok [OF assms this, of cb \<rho> s0] obtain sk where
      sk: "decode_frames cb ds \<rho> [0..<k] s0 = Inr sk" by auto
    from decode_frames_extends [OF sk] have lk: "length (new_coordinates sk) = k"
      by (auto simp: s0)
    from k have "int k + 1 < trajectory_size hp"
      by (auto simp: n_def)
    from decode_frame_ok [OF assms this, of cb \<rho> sk] obtain sk' where
      sk': "decode_frame cb ds \<rho> k sk = Inr sk'" by auto
    from decode_frame_appends [OF sk'] obtain p where
      p: "new_coordinates sk' = new_coordinates sk @ [p]" by blast
    from k have split: "[0..<n] = [0..<k] @ k # [Suc k..<n]"
      by (metis le_add1 less_imp_add_positive upt_add_eq_append upt_conv_Cons zero_le)
    from st have rest: "decode_frames cb ds \<rho> [Suc k..<n] sk' = Inr st"
      by (simp add: split decode_frames_append sk sk')
    from decode_frames_extends [OF rest] obtain qs where
      "new_coordinates st = new_coordinates sk' @ qs" by blast
    then have "new_coordinates st ! k = p"
      by (simp add: p lk nth_append)
    with sk lk sk' p show ?thesis by blast
  qed
  show ?thesis
    using st len each
    by (simp add: unroll_def py_range_def state_before_def n_def [symmetric] s0_def [symmetric])
qed


text \<open>The run on the small dataset, of three frames, appends two entries.\<close>

theorem new_coordinates_one_per_frame_witness:
  "has_frames small_hyper small_dataset \<and>
   map_sum id (\<lambda>st. length (new_coordinates st))
     (unroll small_hyper plain_collaborators small_dataset ()) = Inr 2"
proof -
  have h: "has_frames small_hyper small_dataset"
    by (simp add: has_frames_def small_hyper_def small_dataset_def small_trajectories_def ones_mask_def list_all_iff)
  from new_coordinates_one_per_frame [OF h, of plain_collaborators "()"]
  obtain st where "unroll small_hyper plain_collaborators small_dataset () = Inr st"
    and "length (new_coordinates st) = nat (trajectory_size small_hyper - 1)"
    by blast
  then show ?thesis
    using h by (simp add: small_hyper_def)
qed

section \<open>The first frame\<close>

lemma initialize_first:
  fixes cb :: "('r, 'p) collaborators"
  assumes "has_frames hp ds" and "2 \<le> trajectory_size hp"
  shows "initialize cb ds 0 (initial_state hp :: 'p loop_state) =
     Inr \<lparr>arg_frame = 0,
          arg_coordinates_preprocessed =
            coordinates_layer cb (map (\<lambda>row. row ! 0) (input_data ds)),
          arg_new_coordinates_processed = None,
          arg_cell_states = zero_state (lstm_size hp) (max_num_ped hp),
          arg_all_peds_preprocessed =
            coordinates_layer cb (map (\<lambda>row. row ! 0) (all_peds ds)),
          arg_hidden_states = tf_zeros (max_num_ped hp) (lstm_size hp),
          arg_peds_mask = map (map (\<lambda>v. v ! 0)) (peds_mask ds),
          arg_all_peds_mask = map (map (\<lambda>v. v ! 0)) (all_peds_mask ds)\<rparr>"
  using assms
  by (simp add: initialize_def has_frames_def initial_state_def
      slice_frame_ok [where T = "trajectory_size hp"]
      slice_mask_ok [where T = "trajectory_size hp"])

text \<open>What one frame of the loop does with the result of the decoder.\<close>

lemma decode_frame_result:
  assumes "initialize cb ds k st = Inr call"
    and "slice_frame (input_data ds) (Suc k) = Inr next_coordinates"
  shows "decode_frame cb ds \<rho> k st =
     Inr \<lparr>new_coordinates = new_coordinates st @
            [fst (position_estimate cb \<rho> (snd (snd (decoder cb \<rho> call))) next_coordinates
                    output_size (coordinates_layer cb))],
          new_coordinates_processed =
            Some (snd (position_estimate cb \<rho> (snd (snd (decoder cb \<rho> call)))
                         next_coordinates output_size (coordinates_layer cb))),
          cell_output = fst (decoder cb \<rho> call),
          cell_states = fst (snd (decoder cb \<rho> call))\<rparr>"
  by (simp add: decode_frame_def assms split: prod.splits)

lemma unroll_first_frame:
  assumes "2 \<le> trajectory_size hp"
  shows "unroll hp cb ds \<rho> =
     bind (decode_frame cb ds \<rho> 0 (initial_state hp))
       (decode_frames cb ds \<rho> [1..<nat (trajectory_size hp - 1)])"
proof -
  from assms have "0 < nat (trajectory_size hp - 1)" by simp
  then have "py_range (trajectory_size hp - 1) = 0 # [1..<nat (trajectory_size hp - 1)]"
    by (simp add: py_range_def upt_conv_Cons)
  then show ?thesis
    by (simp add: unroll_def)
qed

lemma first_frame_ok:
  fixes cb :: "('r, 'p) collaborators"
  assumes "has_frames hp ds" and "2 \<le> trajectory_size hp"
  shows "slice_frame (input_data ds) (Suc 0) = Inr (map (\<lambda>row. row ! Suc 0) (input_data ds))"
  using assms
  by (intro slice_frame_ok [where T = "trajectory_size hp"]) (simp_all add: has_frames_def)

text \<open>
  C10. When the loop runs at all (\<open>trajectory_size \<ge> 2\<close>), its first frame has
  index 0 and starts in the initial state. The \<open>hidden_states\<close> argument that
  \<open>decoder.initialize\<close> receives there is the all-zero tensor of shape
  [max_num_ped, lstm_size], whatever the coordinates of the dataset are; the hidden
  output and the state with which the loop goes on to the frames 1 and later are the
  ones the decoder returns on these arguments.
\<close>

theorem first_frame_hidden_states_zero:
  fixes cb :: "('r, 'p) collaborators"
  assumes "has_frames hp ds" and "2 \<le> trajectory_size hp"
  shows "\<exists>call st1. hd (py_range (trajectory_size hp - 1)) = 0 \<and>
           state_before hp cb ds \<rho> 0 = Inr (initial_state hp) \<and>
           initialize cb ds 0 (initial_state hp :: 'p loop_state) = Inr call \<and>
           arg_hidden_states call = tf_zeros (max_num_ped hp) (lstm_size hp) \<and>
           decode_frame cb ds \<rho> 0 (initial_state hp) = Inr st1 \<and>
           cell_output st1 = fst (decoder cb \<rho> call) \<and>
           cell_states st1 = fst (snd (decoder cb \<rho> call)) \<and>
           state_before hp cb ds \<rho> 1 = Inr st1 \<and>
           unroll hp cb ds \<rho> =
             decode_frames cb ds \<rho> [1..<nat (trajectory_size hp - 1)] st1"
proof -
  from assms(2) have "0 < nat (trajectory_size hp - 1)" by simp
  then have h: "hd (py_range (trajectory_size hp - 1)) = 0"
    by (simp add: py_range_def upt_conv_Cons)
  note c = initialize_first [OF assms, of cb]
  note d = decode_frame_result [OF c first_frame_ok [OF assms], of \<rho>]
  show ?thesis
    by (simp add: h c d state_before_def unroll_first_frame [OF assms(2)])
qed

text \<open>
  In the decoder modelled from the spec, a configured pooling strategy is therefore
  applied to zero hidden states at the first frame.
\<close>

lemma first_frame_pooling_zero_hidden:
  fixes cb :: "('r, 'p) collaborators"
  assumes "initialize cb ds 0 (initial_state hp :: 'p loop_state) = Inr call"
  shows "context_pooling (Some pool) \<rho> call selected =
           map2 (@) selected
             (pool \<rho> (tf_zeros (max_num_ped hp) (lstm_size hp)) (arg_peds_mask call))"
  using assms
  by (auto simp: context_pooling_def initialize_def bind_eq_Inr initial_state_def)

text \<open>
  C4. At the frame of index 0 \<open>decoder.initialize\<close> receives \<open>None\<close> as the
  embedding of the previously predicted coordinates. The decoder modelled from the spec
  hands its sampling helper the frame index 0, that \<open>None\<close> and the embedding of the
  real coordinates of frame 0; the cell advances from the zero state on what the helper
  returns there, and the loop goes on to the frames 1 and later with the result. The
  reference helper returns the embedding of the real coordinates in that case.
\<close>

theorem first_frame_null_previous:
  fixes cb :: "('r, 'p) collaborators"
  assumes "has_frames hp ds" and "2 \<le> trajectory_size hp"
    and "decoder cb = SocialDecoder cell helper pooling_module output_layer"
  shows "\<exists>call truth st1. hd (py_range (trajectory_size hp - 1)) = 0 \<and>
           initialize cb ds 0 (initial_state hp :: 'p loop_state) = Inr call \<and>
           slice_frame (input_data ds) 0 = Inr truth \<and>
           arg_new_coordinates_processed call = None \<and>
           input_selection helper \<rho> call = helper \<rho> 0 None (coordinates_layer cb truth) \<and>
           input_selection self_feeding_helper \<rho> call = coordinates_layer cb truth \<and>
           decode_frame cb ds \<rho> 0 (initial_state hp) = Inr st1 \<and>
           (cell_output st1, cell_states st1) =
             cell (context_pooling pooling_module \<rho> call
                     (helper \<rho> 0 None (coordinates_layer cb truth)))
               (zero_state (lstm_size hp) (max_num_ped hp)) \<and>
           state_before hp cb ds \<rho> 1 = Inr st1 \<and>
           unroll hp cb ds \<rho> =
             decode_frames cb ds \<rho> [1..<nat (trajectory_size hp - 1)] st1"
proof -
  from assms(2) have "0 < nat (trajectory_size hp - 1)" by simp
  then have h: "hd (py_range (trajectory_size hp - 1)) = 0"
    by (simp add: py_range_def upt_conv_Cons)
  from assms(1,2) have t:
    "slice_frame (input_data ds) 0 = Inr (map (\<lambda>row. row ! 0) (input_data ds))"
    by (intro slice_frame_ok [where T = "trajectory_size hp"]) (simp_all add: has_frames_def)
  note c = initialize_first [OF assms(1,2), of cb]
  note d = decode_frame_result [OF c first_frame_ok [OF assms(1,2)], of \<rho>]
  show ?thesis
    by (simp add: h t c d state_before_def unroll_first_frame [OF assms(2)] assms(3)
        SocialDecoder_def input_selection_def self_feeding_helper_def split: prod.splits)
qed

text \<open>From the second frame on the decoder receives an embedding, never \<open>None\<close>.\<close>

lemma decode_frame_previous:
  assumes "decode_frame cb ds \<rho> k st = Inr st'"
  shows "new_coordinates_processed st' \<noteq> None"
proof -
  from assms obtain call where c: "initialize cb ds k st = Inr call"
    by (auto simp: decode_frame_def bind_eq_Inr)
  obtain out states lay where d: "decoder cb \<rho> call = (out, states, lay)"
    by (cases "decoder cb \<rho> call") auto
  from assms c d obtain nxt where n: "slice_frame (input_data ds) (k + 1) = Inr nxt"
    by (auto simp: decode_frame_def bind_eq_Inr)
  obtain p e where pe:
    "position_estimate cb \<rho> lay nxt output_size (coordinates_layer cb) = (p, e)"
    by (cases "position_estimate cb \<rho> lay nxt output_size (coordinates_layer cb)") auto
  from assms c d n pe show ?thesis
    by (auto simp: decode_frame_def)
qed

lemma later_frames_have_previous:
  fixes cb :: "('r, 'p) collaborators"
  assumes "state_before hp cb ds \<rho> (Suc k) = Inr st"
    and "initialize cb ds (Suc k) st = Inr call"
  shows "arg_new_coordinates_processed call \<noteq> None"
proof -
  from assms(1) obtain sk where "decode_frame cb ds \<rho> k sk = Inr st"
    by (auto simp: state_before_def decode_frames_append bind_eq_Inr)
  from decode_frame_previous [OF this] assms(2) show ?thesis
    by (auto simp: initialize_def bind_eq_Inr)
qed


subsection \<open>The first frame of the run on the small dataset\<close>

lemma small_has_frames: "has_frames small_hyper small_dataset"
  by (simp add: has_frames_def small_hyper_def small_dataset_def small_trajectories_def ones_mask_def list_all_iff)

lemma small_trajectory: "2 \<le> trajectory_size small_hyper"
  by (simp add: small_hyper_def)

text \<open>
  The stand-in decoder returns the hidden states it was given: after the first frame
  of the small run the hidden output is the zero tensor it received.
\<close>

theorem first_frame_hidden_states_zero_witness:
  "has_frames small_hyper small_dataset \<and> 2 \<le> trajectory_size small_hyper \<and>
   map_sum id arg_hidden_states
     (initialize plain_collaborators small_dataset 0
        (initial_state small_hyper :: tensor1 loop_state)) = Inr (tf_zeros 2 4) \<and>
   map_sum id cell_output (state_before small_hyper plain_collaborators small_dataset () 1) =
     Inr (tf_zeros 2 4)"
proof -
  from first_frame_hidden_states_zero [OF small_has_frames small_trajectory,
      of plain_collaborators "()"]
  obtain call st1 where
    "initialize plain_collaborators small_dataset 0
       (initial_state small_hyper :: tensor1 loop_state) = Inr call"
    and "arg_hidden_states call = tf_zeros (max_num_ped small_hyper) (lstm_size small_hyper)"
    and "cell_output st1 = fst (decoder plain_collaborators () call)"
    and "state_before small_hyper plain_collaborators small_dataset () 1 = Inr st1"
    by blast
  then show ?thesis
    using small_has_frames small_trajectory
    by (simp add: small_hyper_def plain_collaborators_def idle_decoder_def)
qed

text \<open>
  The echoing cell returns what the helper selected: after the first frame of the small
  run the hidden output is the real coordinates of frame 0.
\<close>

theorem first_frame_null_previous_witness:
  "has_frames small_hyper small_dataset \<and> 2 \<le> trajectory_size small_hyper \<and>
   decoder echo_collaborators =
     SocialDecoder echo_cell self_feeding_helper None (zero_layer output_size) \<and>
   map_sum id arg_new_coordinates_processed
     (initialize echo_collaborators small_dataset 0
        (initial_state small_hyper :: tensor1 loop_state)) = Inr None \<and>
   map_sum id cell_output (state_before small_hyper echo_collaborators small_dataset () 1) =
     Inr [[Finite 0, Finite 1], [Finite 10, Finite 11]]"
proof -
  have d: "decoder echo_collaborators =
      SocialDecoder echo_cell self_feeding_helper None (zero_layer output_size)"
    by (simp add: echo_collaborators_def)
  from first_frame_null_previous [OF small_has_frames small_trajectory d, of "()"]
  obtain call truth st1 where
    c: "initialize echo_collaborators small_dataset 0
       (initial_state small_hyper :: tensor1 loop_state) = Inr call"
    and t: "slice_frame (input_data small_dataset) 0 = Inr truth"
    and n: "arg_new_coordinates_processed call = None"
    and o: "(cell_output st1, cell_states st1) =
        echo_cell (context_pooling None () call
                     (self_feeding_helper () 0 None (coordinates_layer echo_collaborators truth)))
          (zero_state (lstm_size small_hyper) (max_num_ped small_hyper))"
    and s: "state_before small_hyper echo_collaborators small_dataset () 1 = Inr st1"
    by blast
  from t have "truth = [[Finite 0, Finite 1], [Finite 10, Finite 11]]"
    by (auto simp: slice_frame_def small_dataset_def small_trajectories_def split: if_splits)
  with o have "cell_output st1 = [[Finite 0, Finite 1], [Finite 10, Finite 11]]"
    by (simp add: echo_cell_def context_pooling_def self_feeding_helper_def
        echo_collaborators_def identity_layer_def)
  with c n s d show ?thesis
    using small_has_frames small_trajectory by simp
qed

section \<open>The slice that reaches the loss function\<close>

lemma py_slice_from_last:
  assumes "1 \<le> p"
  shows "py_slice_from (- p) xs = last_steps (nat p) xs"
proof -
  from assms have "nat (max 0 (int (length xs) - p)) = length xs - nat p"
    by auto
  with assms show ?thesis
    by (simp add: py_slice_from_def last_steps_def Let_def)
qed

lemma py_slice_from_zero: "py_slice_from 0 xs = xs"
  by (simp add: py_slice_from_def)

lemma py_slice_from_map: "py_slice_from b (map f xs) = map f (py_slice_from b xs)"
  by (simp add: py_slice_from_def Let_def drop_map)

lemma py_slice_to_first:
  assumes "0 \<le> n"
  shows "py_slice_to n xs = take (nat n) xs"
proof (cases "n \<le> int (length xs)")
  case True
  with assms show ?thesis
    by (simp add: py_slice_to_def Let_def min_def)
next
  case False
  with assms show ?thesis
    by (simp add: py_slice_to_def Let_def min_def)
qed

lemma length_last_steps: "length (last_steps p xs) = min p (length xs)"
  by (auto simp: last_steps_def)

lemma last_steps_all: "length xs \<le> p \<Longrightarrow> last_steps p xs = xs"
  by (simp add: last_steps_def)

lemma last_steps_min: "last_steps (min p (length xs)) xs = last_steps p xs"
  by (auto simp: last_steps_def min_def)

lemma loss_slice_words:
  assumes "1 \<le> prediction_time hp" and "0 \<le> num_peds_frame ds"
  shows "loss_slice hp ds stacked =
           first_slots (nat (num_peds_frame ds)) (last_steps (nat (prediction_time hp)) stacked)"
proof -
  have "map (py_slice_to (num_peds_frame ds)) ys = map (take (nat (num_peds_frame ds))) ys" for ys :: "'a list list"
    using assms(2) by (simp add: py_slice_to_first)
  then show ?thesis
    by (simp add: loss_slice_def first_slots_def py_slice_from_last [OF assms(1)])
qed

lemma unroll_length:
  fixes cb :: "('r, 'p) collaborators"
  assumes "unroll hp cb ds \<rho> = Inr st"
  shows "length (new_coordinates st) = nat (trajectory_size hp - 1)"
proof -
  from assms decode_frames_extends
    [of cb ds \<rho> "py_range (trajectory_size hp - 1)" "initial_state hp" st]
  show ?thesis
    by (auto simp: unroll_def initial_state_def py_range_def)
qed

lemma unroll_ok:
  fixes cb :: "('r, 'p) collaborators"
  assumes "has_frames hp ds"
  shows "\<exists>st. unroll hp cb ds \<rho> = Inr st"
proof -
  have "nat (trajectory_size hp - 1) = 0 \<or> int (nat (trajectory_size hp - 1)) < trajectory_size hp"
    by auto
  from decode_upto_ok [OF assms this] show ?thesis
    by (simp add: unroll_def py_range_def)
qed

text \<open>The stacked predictions: one value for every slot at every step.\<close>

lemma decode_frame_slots:
  assumes "slot_contract (position_estimate cb)"
    and "decode_frame cb ds \<rho> k st = Inr st'"
  shows "\<exists>p. new_coordinates st' = new_coordinates st @ [p] \<and>
           length p = length (input_data ds)"
proof -
  from assms(2) obtain call where c: "initialize cb ds k st = Inr call"
    by (auto simp: decode_frame_def bind_eq_Inr)
  obtain out states lay where d: "decoder cb \<rho> call = (out, states, lay)"
    by (cases "decoder cb \<rho> call") auto
  from assms(2) c d obtain nxt where n: "slice_frame (input_data ds) (k + 1) = Inr nxt"
    by (auto simp: decode_frame_def bind_eq_Inr)
  from n have ln: "length nxt = length (input_data ds)"
    by (auto simp: slice_frame_def split: if_splits)
  obtain p e where pe:
    "position_estimate cb \<rho> lay nxt output_size (coordinates_layer cb) = (p, e)"
    by (cases "position_estimate cb \<rho> lay nxt output_size (coordinates_layer cb)") auto
  from assms(1) have
    "length (fst (position_estimate cb \<rho> lay nxt output_size (coordinates_layer cb))) =
       length nxt"
    unfolding slot_contract_def by blast
  then have "length p = length (input_data ds)"
    by (simp add: pe ln)
  with assms(2) c d n pe show ?thesis
    by (auto simp: decode_frame_def)
qed

lemma decode_frames_slots:
  assumes "slot_contract (position_estimate cb)"
  shows "decode_frames cb ds \<rho> frames st = Inr st' \<Longrightarrow>
         list_all (\<lambda>w. length w = length (input_data ds)) (new_coordinates st) \<Longrightarrow>
         list_all (\<lambda>w. length w = length (input_data ds)) (new_coordinates st')"
proof (induction frames arbitrary: st)
  case Nil
  then show ?case by simp
next
  case (Cons k frames)
  from Cons.prems(1) obtain s1 where
    s1: "decode_frame cb ds \<rho> k st = Inr s1" and
    rest: "decode_frames cb ds \<rho> frames s1 = Inr st'"
    by (auto simp: bind_eq_Inr)
  from decode_frame_slots [OF assms s1] Cons.prems(2)
  have "list_all (\<lambda>w. length w = length (input_data ds)) (new_coordinates s1)"
    by auto
  from Cons.IH [OF rest this] show ?case .
qed

lemma tf_stack_ok:
  assumes "xs \<noteq> []" and "list_all (\<lambda>w. length w = n) xs"
  shows "tf_stack xs = Inr xs"
  using assms by (cases xs) (auto simp: tf_stack_def list_all_iff)

text \<open>
  C9, as amended. For \<open>trajectory_size \<ge> 2\<close>, \<open>prediction_time \<ge> 1\<close>, a dataset of
  \<open>trajectory_size\<close> frames and a position estimate that returns one prediction for
  every slot, the loop finishes and its predictions are stacked; the slice
  \<open>[-prediction_time:]\<close> of the stacked predictions is their last
  \<open>min(prediction_time, trajectory_size - 1)\<close> steps, so it has that many steps, and
  when \<open>prediction_time\<close> is greater than \<open>trajectory_size - 1\<close> it is all of them. The
  forward pass does not fail before the loss is computed from that slice.
\<close>

theorem loss_slice_trailing_steps:
  fixes cb :: "('r, 'p) collaborators"
  assumes "has_frames hp ds" and "2 \<le> trajectory_size hp" and "1 \<le> prediction_time hp"
    and "slot_contract (position_estimate cb)"
  shows "\<exists>stacked.
           map_sum id new_coordinates (unroll hp cb ds \<rho>) = Inr stacked \<and>
           tf_stack stacked = Inr stacked \<and>
           length stacked = nat (trajectory_size hp - 1) \<and>
           py_slice_from (- prediction_time hp) stacked =
             last_steps (nat (min (prediction_time hp) (trajectory_size hp - 1))) stacked \<and>
           length (loss_slice hp ds stacked) =
             nat (min (prediction_time hp) (trajectory_size hp - 1)) \<and>
           (trajectory_size hp - 1 < prediction_time hp \<longrightarrow>
              py_slice_from (- prediction_time hp) stacked = stacked) \<and>
           sliced_steps hp cb ds \<rho> =
             Inr (nat (min (prediction_time hp) (trajectory_size hp - 1))) \<and>
           SocialModel hp cb ds tvars \<rho> =
             bind (final_loss hp cb ds tvars \<rho> stacked) (\<lambda>loss. Inr (stacked, loss))"
proof -
  from unroll_ok [OF assms(1), of cb \<rho>] obtain st where st: "unroll hp cb ds \<rho> = Inr st"
    by auto
  define xs where "xs = new_coordinates st"
  have len: "length xs = nat (trajectory_size hp - 1)"
    unfolding xs_def by (rule unroll_length [OF st])
  with assms(2) have ne: "xs \<noteq> []"
    by auto
  from st have "decode_frames cb ds \<rho> (py_range (trajectory_size hp - 1))
      (initial_state hp) = Inr st"
    by (simp add: unroll_def)
  from decode_frames_slots [OF assms(4) this]
  have "list_all (\<lambda>w. length w = length (input_data ds)) xs"
    by (simp add: xs_def initial_state_def)
  from tf_stack_ok [OF ne this] have k: "tf_stack xs = Inr xs" .
  from assms(3) have m: "nat (min (prediction_time hp) (trajectory_size hp - 1)) =
      min (nat (prediction_time hp)) (length xs)"
    by (auto simp: len min_def)
  have a: "py_slice_from (- prediction_time hp) xs =
      last_steps (nat (min (prediction_time hp) (trajectory_size hp - 1))) xs"
    by (simp add: py_slice_from_last [OF assms(3)] m last_steps_min)
  have b: "length (loss_slice hp ds xs) = nat (min (prediction_time hp) (trajectory_size hp - 1))"
    by (simp add: loss_slice_def py_slice_from_last [OF assms(3)] length_last_steps m)
  have c: "py_slice_from (- prediction_time hp) xs = xs"
    if "trajectory_size hp - 1 < prediction_time hp"
  proof -
    from that have "length xs \<le> nat (prediction_time hp)"
      by (simp add: len)
    then show ?thesis
      by (simp add: py_slice_from_last [OF assms(3)] last_steps_all)
  qed
  have d: "sliced_steps hp cb ds \<rho> =
      Inr (nat (min (prediction_time hp) (trajectory_size hp - 1)))"
    by (simp add: sliced_steps_def st xs_def [symmetric] k b)
  have e: "SocialModel hp cb ds tvars \<rho> =
      bind (final_loss hp cb ds tvars \<rho> xs) (\<lambda>loss. Inr (xs, loss))"
    by (simp add: SocialModel_def st xs_def [symmetric] k)
  have "map_sum id new_coordinates (unroll hp cb ds \<rho>) = Inr xs"
    by (simp add: st xs_def)
  with k len a b c d e show ?thesis
    by blast
qed

text \<open>
  With a single frame the loop does not run; the empty list of predictions is stacked to
  a tensor of rank 1, and the slice over two axes fails.
\<close>

lemma short_trajectory_fails:
  assumes "trajectory_size hp \<le> 1"
  shows "sliced_steps hp cb ds \<rho> = Inl ValueError"
    and "SocialModel hp cb ds tvars \<rho> = Inl ValueError"
  using assms
  by (simp_all add: sliced_steps_def SocialModel_def unroll_def py_range_def initial_state_def
      tf_stack_def)

text \<open>
  C7. When \<open>num_peds_frame\<close> is a count, two stacked sequences of predictions that agree
  on the first \<open>num_peds_frame\<close> slots of every step give the same normalized loss and
  the same final loss, whatever the other slots hold.
\<close>

theorem calculate_loss_ignores_padding:
  fixes cb :: "('r, 'p) collaborators" and a b :: "'p list list"
  assumes "0 \<le> num_peds_frame ds"
    and "first_slots (nat (num_peds_frame ds)) a = first_slots (nat (num_peds_frame ds)) b"
  shows "Calculate_loss hp cb ds \<rho> a = Calculate_loss hp cb ds \<rho> b \<and>
         final_loss hp cb ds tvars \<rho> a = final_loss hp cb ds tvars \<rho> b"
proof -
  have "loss_slice hp ds xs =
      py_slice_from (- prediction_time hp) (first_slots (nat (num_peds_frame ds)) xs)"
    for xs :: "'p list list"
    using assms(1)
    by (simp add: loss_slice_def first_slots_def py_slice_from_map py_slice_to_first)
  with assms(2) have "loss_slice hp ds a = loss_slice hp ds b"
    by simp
  then show ?thesis
    by (simp add: Calculate_loss_def final_loss_def)
qed


subsection \<open>The slice of the small run\<close>

lemma small_unroll_eval:
  "unroll small_hyper plain_collaborators small_dataset () =
     Inr \<lparr>new_coordinates = small_predictions,
          new_coordinates_processed = Some (tf_zeros 2 3),
          cell_output = tf_zeros 2 4,
          cell_states = zero_state 4 2\<rparr>"
  by (simp add: unroll_def py_range_def upt_conv_Cons small_hyper_def initial_state_def
      decode_frame_def initialize_def slice_frame_def slice_mask_def
      plain_collaborators_def small_dataset_def small_trajectories_def ones_mask_def idle_decoder_def
      verbatim_position_estimate_def zero_layer_def small_predictions_def
      zero_state_def tf_zeros_def numeral_2_eq_2 numeral_3_eq_3)


lemma unroll_prediction_time:
  "unroll (hp\<lparr>prediction_time := p\<rparr>) cb ds \<rho> = unroll hp cb ds \<rho>"
  by (simp add: unroll_def initial_state_def)

lemma small_stack_eval: "tf_stack small_predictions = Inr small_predictions"
  by (simp add: tf_stack_def small_predictions_def numeral_2_eq_2)

text \<open>
  C9 as stated fails for \<open>prediction_time = 0\<close>: the slice \<open>[-0:]\<close> is the whole
  sequence, two steps here, and not \<open>min(0, trajectory_size - 1) = 0\<close> steps.
\<close>

theorem loss_slice_zero_time_counterexample:
  "sliced_steps zero_time_hyper plain_collaborators small_dataset () = Inr 2 \<and>
   nat (min (prediction_time zero_time_hyper) (trajectory_size zero_time_hyper - 1)) = 0"
  by (simp add: sliced_steps_def zero_time_hyper_def unroll_prediction_time small_unroll_eval
      small_stack_eval loss_slice_def py_slice_from_def)
     (simp add: small_predictions_def small_hyper_def)

text \<open>With eight frames to predict and two predictions, both reach the loss function.\<close>

theorem loss_slice_trailing_steps_witness:
  "has_frames long_time_hyper small_dataset \<and> 2 \<le> trajectory_size long_time_hyper \<and>
   1 \<le> prediction_time long_time_hyper \<and>
   slot_contract (position_estimate plain_collaborators) \<and>
   trajectory_size long_time_hyper - 1 < prediction_time long_time_hyper \<and>
   sliced_steps long_time_hyper plain_collaborators small_dataset () = Inr 2 \<and>
   map_sum id (py_slice_from (- prediction_time long_time_hyper))
     (tf_stack small_predictions) = Inr small_predictions"
proof -
  have h: "has_frames long_time_hyper small_dataset"
    by (simp add: has_frames_def long_time_hyper_def small_hyper_def small_dataset_def
        small_trajectories_def ones_mask_def list_all_iff)
  have t: "2 \<le> trajectory_size long_time_hyper"
    by (simp add: long_time_hyper_def small_hyper_def)
  have p: "1 \<le> prediction_time long_time_hyper"
    by (simp add: long_time_hyper_def)
  have c: "slot_contract (position_estimate plain_collaborators)"
    by (simp add: slot_contract_def plain_collaborators_def verbatim_position_estimate_def)
  have g: "trajectory_size long_time_hyper - 1 < prediction_time long_time_hyper"
    by (simp add: long_time_hyper_def small_hyper_def)
  have u: "unroll long_time_hyper plain_collaborators small_dataset () =
      unroll small_hyper plain_collaborators small_dataset ()"
    by (simp add: long_time_hyper_def unroll_prediction_time)
  from loss_slice_trailing_steps [OF h t p c, of "()" small_tvars]
  obtain stacked where
    "map_sum id new_coordinates (unroll long_time_hyper plain_collaborators small_dataset ()) =
       Inr stacked"
    and k: "tf_stack stacked = Inr stacked"
    and w: "trajectory_size long_time_hyper - 1 < prediction_time long_time_hyper \<longrightarrow>
       py_slice_from (- prediction_time long_time_hyper) stacked = stacked"
    and n: "sliced_steps long_time_hyper plain_collaborators small_dataset () =
       Inr (nat (min (prediction_time long_time_hyper) (trajectory_size long_time_hyper - 1)))"
    by blast
  then have "stacked = small_predictions"
    by (simp add: u small_unroll_eval)
  with k w g have "map_sum id (py_slice_from (- prediction_time long_time_hyper))
      (tf_stack small_predictions) = Inr small_predictions"
    by simp
  moreover from n have "sliced_steps long_time_hyper plain_collaborators small_dataset () = Inr 2"
    by (simp add: long_time_hyper_def small_hyper_def)
  ultimately show ?thesis
    using h t p c g by blast
qed

text \<open>A single frame and eight frames to predict: the forward pass fails.\<close>

lemma short_run_fails:
  "has_frames short_hyper short_dataset \<and> 1 \<le> prediction_time short_hyper \<and>
   sliced_steps short_hyper plain_collaborators short_dataset () = Inl ValueError \<and>
   SocialModel short_hyper plain_collaborators short_dataset small_tvars () = Inl ValueError"
proof -
  have t: "trajectory_size short_hyper \<le> 1"
    by (simp add: short_hyper_def)
  have "has_frames short_hyper short_dataset" "1 \<le> prediction_time short_hyper"
    by (simp_all add: has_frames_def short_hyper_def short_dataset_def long_time_hyper_def
        small_hyper_def list_all_iff)
  then show ?thesis
    by (simp add: short_trajectory_fails [OF t])
qed

text \<open>One pedestrian: the values of the second slot do not change the loss.\<close>

theorem calculate_loss_ignores_padding_witness:
  "0 \<le> num_peds_frame single_ped_dataset \<and>
   first_slots (nat (num_peds_frame single_ped_dataset)) small_predictions =
     first_slots (nat (num_peds_frame single_ped_dataset)) padded_predictions \<and>
   small_predictions \<noteq> padded_predictions \<and>
   Calculate_loss small_hyper plain_collaborators single_ped_dataset () small_predictions =
     Calculate_loss small_hyper plain_collaborators single_ped_dataset () padded_predictions"
proof -
  have n: "0 \<le> num_peds_frame single_ped_dataset"
    by (simp add: single_ped_dataset_def)
  have f: "first_slots (nat (num_peds_frame single_ped_dataset)) small_predictions =
      first_slots (nat (num_peds_frame single_ped_dataset)) padded_predictions"
    by (simp add: single_ped_dataset_def first_slots_def small_predictions_def
        padded_predictions_def numeral_2_eq_2)
  have d: "small_predictions \<noteq> padded_predictions"
    by (simp add: small_predictions_def padded_predictions_def)
  from calculate_loss_ignores_padding [OF n f, of small_hyper plain_collaborators "()"]
    n f d
  show ?thesis
    by simp
qed

section \<open>The final loss and its normalization\<close>

lemma tf_add_zero_left: "tf_add (Finite 0) y = y"
  by (cases y) simp_all


lemma tf_mul_commute: "tf_mul x y = tf_mul y x"
  by (cases x; cases y) (simp_all add: mult.commute)

lemma tf_div_zero_not_finite: "\<not> is_finite (tf_div x (Finite 0))"
  by (cases x) (simp_all add: is_finite_def)

lemma tf_add_not_finite: "\<not> is_finite x \<Longrightarrow> \<not> is_finite (tf_add x y)"
  by (cases x; cases y) (simp_all add: is_finite_def)

lemma tf_add_n_sum: "xs \<noteq> [] \<Longrightarrow> tf_add_n xs = Inr (tf_sum xs)"
  by (cases xs) (simp_all add: tf_add_n_def tf_sum_def tf_add_zero_left)

lemma tf_add_n_fails: "tf_add_n xs = Inl ValueError \<longleftrightarrow> xs = []"
  by (cases xs) (simp_all add: tf_add_n_def)

lemma l2_loss_half: "l2_loss v = tf_div (squared_norm v) (Finite 2)"
  by (simp add: l2_loss_def squared_norm_def)

lemma l2_losses_not_bias:
  "map (\<lambda>v. l2_loss (snd v)) (filter (\<lambda>v. \<not> sublist ''bias'' (fst v)) tvars) =
     map (\<lambda>v. tf_div (squared_norm v) (Finite 2)) (not_bias tvars)"
  by (simp add: not_bias_def l2_loss_half comp_def)

lemma weights_regularization_ok:
  assumes "not_bias tvars \<noteq> []"
  shows "weights_regularization hp tvars =
           Inr (tf_mul (Finite (l2_norm hp))
                  (tf_sum (map (\<lambda>v. tf_div (squared_norm v) (Finite 2)) (not_bias tvars))))"
  using assms
  by (simp add: weights_regularization_def l2_losses_not_bias tf_add_n_sum
      tf_mul_commute [of _ "Finite (l2_norm hp)"])

lemma weights_regularization_fails:
  "weights_regularization hp tvars = Inl ValueError \<longleftrightarrow> not_bias tvars = []"
proof (cases "not_bias tvars = []")
  case True
  then show ?thesis
    by (simp add: weights_regularization_def l2_losses_not_bias tf_add_n_def)
next
  case False
  then show ?thesis
    by (simp add: weights_regularization_ok)
qed

lemma py_slice_to_zero: "py_slice_to 0 = (\<lambda>xs. [])"
  by (rule ext) (simp add: py_slice_to_def)

text \<open>
  C1, as amended. For \<open>prediction_time \<ge> 1\<close>, a count \<open>num_peds_frame\<close> and at least
  one trainable variable whose name does not contain \<open>bias\<close>, the final loss is the
  loss function applied to the last \<open>prediction_time\<close> steps and the first
  \<open>num_peds_frame\<close> slots of the stacked predictions, divided by \<open>num_peds_frame\<close>
  cast to float32, plus \<open>l2_norm\<close> times the sum, over the trainable variables whose
  name does not contain \<open>bias\<close>, of half the squared norm.
\<close>

theorem final_loss_formula:
  fixes cb :: "('r, 'p) collaborators"
  assumes "1 \<le> prediction_time hp" and "0 \<le> num_peds_frame ds" and "not_bias tvars \<noteq> []"
  shows "final_loss hp cb ds tvars \<rho> stacked =
           Inr (loss_with_half_squared_norms hp cb ds tvars \<rho> stacked)"
  by (simp add: final_loss_def weights_regularization_ok [OF assms(3)] Calculate_loss_def
      loss_slice_words [OF assms(1,2)] loss_with_half_squared_norms_def normalized_loss_def)

text \<open>
  C6, as amended. When \<open>num_peds_frame\<close> is 0 the normalization is neither guarded nor
  an error: the loss function receives steps without slots, its result is divided by
  0.0, and the quotient is NaN or an infinity. The final loss fails only as it does for
  every \<open>num_peds_frame\<close>, when no trainable variable is regularized, and otherwise
  it is not finite.
\<close>

theorem normalization_by_zero:
  fixes cb :: "('r, 'p) collaborators"
  assumes "num_peds_frame ds = 0"
  shows "Calculate_loss hp cb ds \<rho> stacked =
           tf_div (loss_function cb \<rho>
                     (map (\<lambda>step. []) (py_slice_from (- prediction_time hp) stacked)))
             (Finite 0) \<and>
         \<not> is_finite (Calculate_loss hp cb ds \<rho> stacked) \<and>
         (final_loss hp cb ds tvars \<rho> stacked = Inl ValueError \<longleftrightarrow> not_bias tvars = []) \<and>
         (\<forall>loss. final_loss hp cb ds tvars \<rho> stacked = Inr loss \<longrightarrow> \<not> is_finite loss)"
proof -
  have a: "Calculate_loss hp cb ds \<rho> stacked =
      tf_div (loss_function cb \<rho>
                (map (\<lambda>step. []) (py_slice_from (- prediction_time hp) stacked)))
        (Finite 0)"
    by (simp add: Calculate_loss_def loss_slice_def assms py_slice_to_zero tf_cast_def)
  then have b: "\<not> is_finite (Calculate_loss hp cb ds \<rho> stacked)"
    by (simp add: tf_div_zero_not_finite)
  have c: "final_loss hp cb ds tvars \<rho> stacked = Inl ValueError \<longleftrightarrow> not_bias tvars = []"
    using weights_regularization_fails [of hp tvars]
    by (cases "weights_regularization hp tvars") (auto simp: final_loss_def)
  have d: "\<not> is_finite loss" if "final_loss hp cb ds tvars \<rho> stacked = Inr loss" for loss
    using that tf_add_not_finite [OF b]
    by (auto simp: final_loss_def bind_eq_Inr)
  from a b c d show ?thesis by blast
qed


subsection \<open>The loss of the small run\<close>

lemma decode_frame_num_peds_frame:
  "decode_frame cb (ds\<lparr>num_peds_frame := n\<rparr>) \<rho> k st = decode_frame cb ds \<rho> k st"
  by (simp add: decode_frame_def initialize_def)

lemma decode_frames_num_peds_frame:
  "decode_frames cb (ds\<lparr>num_peds_frame := n\<rparr>) \<rho> frames st = decode_frames cb ds \<rho> frames st"
proof (induction frames arbitrary: st)
  case Nil
  show ?case by simp
next
  case (Cons k frames)
  have "decode_frames cb (ds\<lparr>num_peds_frame := n\<rparr>) \<rho> frames =
      decode_frames cb ds \<rho> frames"
    by (rule ext) (rule Cons.IH)
  then show ?case
    by (simp add: decode_frame_num_peds_frame)
qed

lemma unroll_num_peds_frame:
  "unroll hp cb (ds\<lparr>num_peds_frame := n\<rparr>) \<rho> = unroll hp cb ds \<rho>"
  by (simp add: unroll_def decode_frames_num_peds_frame)

lemma unroll_l2_norm: "unroll (hp\<lparr>l2_norm := w\<rparr>) cb ds \<rho> = unroll hp cb ds \<rho>"
  by (simp add: unroll_def initial_state_def)

lemma small_not_bias: "not_bias small_tvars = [[Finite 1]]"
  by (simp add: not_bias_def small_tvars_def sublist_code)

lemma small_sum_loss: "sum_loss () small_predictions = Finite 68"
  by (simp add: sum_loss_def small_predictions_def tf_sum_def numeral_2_eq_2)

lemma small_slice: "loss_slice small_hyper small_dataset small_predictions = small_predictions"
  by (simp add: loss_slice_def small_hyper_def small_dataset_def small_trajectories_def py_slice_from_def
      py_slice_to_def small_predictions_def)

lemma small_calculate_loss:
  "Calculate_loss small_hyper plain_collaborators small_dataset () small_predictions =
     Finite 34"
  by (simp add: Calculate_loss_def small_slice)
     (simp add: plain_collaborators_def small_sum_loss small_dataset_def small_trajectories_def tf_cast_def)


lemma half_squared_norm_one: "tf_div (squared_norm [Finite 1]) (Finite 2) = Finite (1 / 2)"
  by (simp add: squared_norm_def tf_sum_def)

lemma small_regularization: "weights_regularization small_hyper small_tvars = Inr (Finite 0)"
  by (simp add: weights_regularization_ok small_not_bias half_squared_norm_one tf_sum_def)
     (simp add: small_hyper_def)

lemma regularized_regularization:
  "weights_regularization regularized_hyper small_tvars = Inr (Finite (1 / 2))"
  by (simp add: weights_regularization_ok small_not_bias half_squared_norm_one tf_sum_def)
     (simp add: regularized_hyper_def)

lemma regularized_calculate_loss:
  "Calculate_loss regularized_hyper plain_collaborators small_dataset () small_predictions =
     Finite 34"
  using small_calculate_loss
  by (simp add: Calculate_loss_def loss_slice_def regularized_hyper_def)

lemma empty_frame_calculate_loss:
  "Calculate_loss small_hyper plain_collaborators empty_frame_dataset () small_predictions =
     NaN"
  by (simp add: Calculate_loss_def loss_slice_def empty_frame_dataset_def py_slice_to_zero
      tf_cast_def plain_collaborators_def sum_loss_def tf_sum_def
      small_hyper_def py_slice_from_def small_predictions_def)

text \<open>
  One regularized weight of value 1 and \<open>l2_norm = 1\<close>: the loss is 68 / 2 + 1 / 2.
\<close>

theorem final_loss_formula_witness:
  "1 \<le> prediction_time regularized_hyper \<and> 0 \<le> num_peds_frame small_dataset \<and>
   not_bias small_tvars \<noteq> [] \<and>
   final_loss regularized_hyper plain_collaborators small_dataset small_tvars ()
     small_predictions = Inr (Finite (69 / 2))"
proof -
  have p: "1 \<le> prediction_time regularized_hyper"
    by (simp add: regularized_hyper_def small_hyper_def)
  have n: "0 \<le> num_peds_frame small_dataset"
    by (simp add: small_dataset_def small_trajectories_def)
  have v: "not_bias small_tvars \<noteq> []"
    by (simp add: small_not_bias)
  have "loss_with_half_squared_norms regularized_hyper plain_collaborators small_dataset
      small_tvars () small_predictions = Finite (69 / 2)"
    using final_loss_formula [OF p n v, of plain_collaborators "()" small_predictions]
    by (simp add: final_loss_def regularized_regularization regularized_calculate_loss)
  with final_loss_formula [OF p n v, of plain_collaborators "()" small_predictions] p n v
  show ?thesis by simp
qed

text \<open>
  C1 as stated fails there: the forward pass returns 69 / 2, and the loss with the
  squared norm itself is 35.
\<close>

theorem squared_norms_counterexample:
  "SocialModel regularized_hyper plain_collaborators small_dataset small_tvars () =
     Inr (small_predictions, Finite (69 / 2)) \<and>
   loss_with_squared_norms regularized_hyper plain_collaborators small_dataset small_tvars ()
     small_predictions = Finite 35"
proof -
  have "SocialModel regularized_hyper plain_collaborators small_dataset small_tvars () =
      Inr (small_predictions, Finite (69 / 2))"
    by (simp add: SocialModel_def regularized_hyper_def unroll_l2_norm small_unroll_eval
        small_stack_eval)
       (simp add: final_loss_def regularized_hyper_def [symmetric] regularized_regularization
        regularized_calculate_loss)
  moreover have "normalized_loss regularized_hyper plain_collaborators small_dataset ()
      small_predictions = Finite 34"
    using regularized_calculate_loss
    by (simp add: Calculate_loss_def normalized_loss_def loss_slice_words
        regularized_hyper_def small_hyper_def small_dataset_def small_trajectories_def)
  ultimately show ?thesis
    by (simp add: loss_with_squared_norms_def small_not_bias squared_norm_def tf_sum_def)
       (simp add: regularized_hyper_def)
qed

text \<open>
  C6 as stated fails on a frame without pedestrians: the forward pass does not fail, and
  its loss is the NaN of the unguarded division 0 / 0.
\<close>

theorem normalization_by_zero_counterexample:
  "SocialModel small_hyper plain_collaborators empty_frame_dataset small_tvars () =
     Inr (small_predictions, NaN) \<and>
   num_peds_frame empty_frame_dataset = 0"
  by (simp add: SocialModel_def empty_frame_dataset_def unroll_num_peds_frame small_unroll_eval
      small_stack_eval)
     (simp add: final_loss_def empty_frame_dataset_def [symmetric] small_regularization
      empty_frame_calculate_loss)

text \<open>The loss of that frame is not finite.\<close>

theorem normalization_by_zero_witness:
  "num_peds_frame empty_frame_dataset = 0 \<and>
   final_loss small_hyper plain_collaborators empty_frame_dataset small_tvars ()
     small_predictions = Inr NaN \<and>
   \<not> is_finite NaN"
proof -
  have z: "num_peds_frame empty_frame_dataset = 0"
    by (simp add: empty_frame_dataset_def)
  have f: "final_loss small_hyper plain_collaborators empty_frame_dataset small_tvars ()
      small_predictions = Inr NaN"
    by (simp add: final_loss_def small_regularization empty_frame_calculate_loss)
  with normalization_by_zero
    [OF z, of small_hyper plain_collaborators "()" small_predictions small_tvars] z
  show ?thesis by simp
qed

section \<open>The end-to-end scenario\<close>

lemma slice_frame_value:
  "slice_frame x k = Inr y \<Longrightarrow> y = map (\<lambda>row. row ! k) x"
  by (auto simp: slice_frame_def split: if_splits)








subsection \<open>The scenario on the small dataset\<close>

lemma reference_unroll_eval:
  "unroll small_hyper reference_collaborators small_dataset () =
     Inr \<lparr>new_coordinates = small_predictions,
          new_coordinates_processed = Some (tf_zeros 2 3),
          cell_output = tf_zeros 2 4,
          cell_states = zero_state 4 2\<rparr>"
  by (simp add: unroll_def py_range_def upt_conv_Cons small_hyper_def initial_state_def
      decode_frame_def initialize_def slice_frame_def slice_mask_def
      reference_collaborators_def small_dataset_def small_trajectories_def ones_mask_def SocialDecoder_def
      idle_cell_def verbatim_position_estimate_def zero_layer_def small_predictions_def
      zero_state_def tf_zeros_def numeral_2_eq_2 numeral_3_eq_3)






section \<open>Determinism of the forward pass\<close>

lemma deterministicD: "deterministic f \<Longrightarrow> f \<rho> = f \<rho>'"
  by (simp add: deterministic_def)

lemma decode_frames_run:
  assumes "decoder cb \<rho> = decoder cb \<rho>'"
    and "position_estimate cb \<rho> = position_estimate cb \<rho>'"
  shows "decode_frames cb ds \<rho> frames st = decode_frames cb ds \<rho>' frames st"
proof (induction frames arbitrary: st)
  case Nil
  show ?case by simp
next
  case (Cons k frames)
  have step: "decode_frame cb ds \<rho> k st = decode_frame cb ds \<rho>' k st"
    by (simp add: decode_frame_def assms)
  have "decode_frames cb ds \<rho> frames = decode_frames cb ds \<rho>' frames"
    by (rule ext) (rule Cons.IH)
  with step show ?case by simp
qed

text \<open>
  C8. When the decoder (so the helper and the pooling strategy it calls), the position
  estimate and the loss function are deterministic, two runs of the forward pass on the
  same dataset tensors, with the same trainable variables, give the same predictions
  and the same loss, or fail both.
\<close>

theorem forward_pass_deterministic:
  fixes cb :: "('r, 'p) collaborators"
  assumes "deterministic (decoder cb)"
    and "deterministic (position_estimate cb)"
    and "deterministic (loss_function cb)"
  shows "SocialModel hp cb ds tvars \<rho> = SocialModel hp cb ds tvars \<rho>'"
proof -
  have u: "unroll hp cb ds \<rho> = unroll hp cb ds \<rho>'"
    unfolding unroll_def
    by (rule decode_frames_run)
       (rule deterministicD [OF assms(1)], rule deterministicD [OF assms(2)])
  have "final_loss hp cb ds tvars \<rho> stacked = final_loss hp cb ds tvars \<rho>' stacked"
    for stacked
    by (simp add: final_loss_def Calculate_loss_def deterministicD [OF assms(3), of \<rho> \<rho>'])
  then show ?thesis
    by (simp add: SocialModel_def u)
qed

text \<open>
  The decoder modelled from the spec is deterministic when its helper and its pooling
  strategy are.
\<close>

lemma SocialDecoder_deterministic:
  assumes "deterministic helper"
    and "\<And>pool. pooling_module = Some pool \<Longrightarrow> deterministic pool"
  shows "deterministic (SocialDecoder cell helper pooling_module output_layer)"
proof -
  have "SocialDecoder cell helper pooling_module output_layer \<rho> call =
      SocialDecoder cell helper pooling_module output_layer \<rho>' call" for \<rho> \<rho>' call
  proof (cases pooling_module)
    case None
    then show ?thesis
      by (simp add: SocialDecoder_def context_pooling_def input_selection_def
          deterministicD [OF assms(1), of \<rho> \<rho>'])
  next
    case (Some pool)
    from assms(2) [OF Some] have "pool \<rho> = pool \<rho>'"
      by (rule deterministicD)
    with Some show ?thesis
      by (simp add: SocialDecoder_def context_pooling_def input_selection_def
          deterministicD [OF assms(1), of \<rho> \<rho>'])
  qed
  then show ?thesis
    by (auto simp: deterministic_def)
qed

subsection \<open>Two runs that draw different numbers\<close>

theorem forward_pass_deterministic_witness:
  "deterministic (decoder seeded_collaborators) \<and>
   deterministic (position_estimate seeded_collaborators) \<and>
   deterministic (loss_function seeded_collaborators) \<and>
   SocialModel small_hyper seeded_collaborators small_dataset small_tvars 0 =
     SocialModel small_hyper seeded_collaborators small_dataset small_tvars 1"
proof -
  have d: "deterministic (decoder seeded_collaborators)"
    by (auto simp: deterministic_def seeded_collaborators_def idle_decoder_def fun_eq_iff)
  have p: "deterministic (position_estimate seeded_collaborators)"
    by (auto simp: deterministic_def seeded_collaborators_def verbatim_position_estimate_def
        fun_eq_iff)
  have l: "deterministic (loss_function seeded_collaborators)"
    by (auto simp: deterministic_def seeded_collaborators_def sum_loss_def fun_eq_iff)
  from forward_pass_deterministic [OF d p l, of small_hyper small_dataset small_tvars 0 1] d p l
  show ?thesis by simp
qed

text \<open>
  A position estimate that adds the number drawn by the run is not deterministic, and
  the predictions of two runs differ.
\<close>

lemma noisy_unroll_eval:
  "unroll small_hyper noisy_collaborators small_dataset \<rho> =
     Inr \<lparr>new_coordinates =
            [[[Finite (2 + of_nat \<rho>), Finite 3], [Finite (12 + of_nat \<rho>), Finite 13]],
             [[Finite (4 + of_nat \<rho>), Finite 5], [Finite (14 + of_nat \<rho>), Finite 15]]],
          new_coordinates_processed = Some (tf_zeros 2 3),
          cell_output = tf_zeros 2 4,
          cell_states = zero_state 4 2\<rparr>"
  by (simp add: unroll_def py_range_def upt_conv_Cons small_hyper_def initial_state_def
      decode_frame_def initialize_def slice_frame_def slice_mask_def
      noisy_collaborators_def seeded_collaborators_def small_dataset_def small_trajectories_def ones_mask_def
      idle_decoder_def noisy_position_estimate_def zero_layer_def
      zero_state_def tf_zeros_def numeral_2_eq_2 numeral_3_eq_3)

lemma noisy_runs_differ:
  "unroll small_hyper noisy_collaborators small_dataset 0 \<noteq>
   unroll small_hyper noisy_collaborators small_dataset 1"
  by (simp add: noisy_unroll_eval numeral_2_eq_2)

section \<open>The shape of the recurrent state\<close>

lemma has_shape_zeros: "has_shape rows cols (tf_zeros rows cols)"
  by (simp add: has_shape_def tf_zeros_def list_all_iff)

lemma state_shape_zero: "state_shape batch units (zero_state units batch)"
  by (simp add: state_shape_def zero_state_def has_shape_zeros)

text \<open>What every frame keeps: the shapes, and one embedded row for every slot.\<close>

lemma decode_frame_shape:
  fixes cb :: "('r, 'p) collaborators"
  assumes dec: "decoder cb = SocialDecoder cell helper pooling_module output_layer"
    and cell: "cell_contract batch units cell"
    and layer: "layer_contract (coordinates_layer cb)"
    and helper: "helper_contract batch helper"
    and pooling: "pooling_contract batch pooling_module"
    and estimate: "estimate_contract batch (position_estimate cb)"
    and slots: "length (input_data ds) = batch"
    and step: "decode_frame cb ds \<rho> k st = Inr st'"
    and out: "has_shape batch units (cell_output st)"
    and states: "state_shape batch units (cell_states st)"
    and prev: "\<And>p. new_coordinates_processed st = Some p \<Longrightarrow> length p = batch"
  shows "has_shape batch units (cell_output st') \<and>
         state_shape batch units (cell_states st') \<and>
         (\<forall>p. new_coordinates_processed st' = Some p \<longrightarrow> length p = batch)"
proof -
  from step obtain call where c: "initialize cb ds k st = Inr call"
    by (auto simp: decode_frame_def bind_eq_Inr)
  then obtain truth where truth: "slice_frame (input_data ds) k = Inr truth"
    and gt: "arg_coordinates_preprocessed call = coordinates_layer cb truth"
    and pr: "arg_new_coordinates_processed call = new_coordinates_processed st"
    and cs: "arg_cell_states call = cell_states st"
    and hs: "arg_hidden_states call = cell_output st"
    by (auto simp: initialize_def bind_eq_Inr)
  from slice_frame_value [OF truth] slots have "length truth = batch"
    by simp
  with layer have lgt: "length (arg_coordinates_preprocessed call) = batch"
    by (simp add: gt layer_contract_def)
  define selected where "selected = input_selection helper \<rho> call"
  from helper lgt prev have sel: "length selected = batch"
    unfolding selected_def input_selection_def helper_contract_def pr
    by blast
  define fed where "fed = context_pooling pooling_module \<rho> call selected"
  have fed: "length fed = batch"
  proof (cases pooling_module)
    case None
    then show ?thesis
      by (simp add: fed_def context_pooling_def sel)
  next
    case (Some pool)
    from out have "length (arg_hidden_states call) = batch"
      by (simp add: hs has_shape_def)
    with pooling Some have "length (pool \<rho> (arg_hidden_states call) (arg_peds_mask call)) = batch"
      unfolding pooling_contract_def by blast
    with Some show ?thesis
      by (simp add: fed_def context_pooling_def sel)
  qed
  obtain hidden new_states where r: "cell fed (cell_states st) = (hidden, new_states)"
    by (cases "cell fed (cell_states st)") auto
  from cell fed states have "has_shape batch units (fst (cell fed (cell_states st))) \<and>
      state_shape batch units (snd (cell fed (cell_states st)))"
    unfolding cell_contract_def by blast
  then have shapes: "has_shape batch units hidden" "state_shape batch units new_states"
    by (simp_all add: r)
  have d: "decoder cb \<rho> call = (hidden, new_states, output_layer hidden)"
    by (simp add: dec SocialDecoder_def fed_def [symmetric] selected_def [symmetric] cs r)
  from step c d obtain nxt where n: "slice_frame (input_data ds) (k + 1) = Inr nxt"
    by (auto simp: decode_frame_def bind_eq_Inr)
  from slice_frame_value [OF n] slots have ln: "length nxt = batch"
    by simp
  obtain p e where pe:
    "position_estimate cb \<rho> (output_layer hidden) nxt output_size (coordinates_layer cb) = (p, e)"
    by (cases "position_estimate cb \<rho> (output_layer hidden) nxt output_size (coordinates_layer cb)")
       auto
  from estimate ln layer
  have "length (snd (position_estimate cb \<rho> (output_layer hidden) nxt output_size
      (coordinates_layer cb))) = batch"
    unfolding estimate_contract_def by blast
  then have le: "length e = batch"
    by (simp add: pe)
  from step c d n pe have "st' = \<lparr>new_coordinates = new_coordinates st @ [p],
      new_coordinates_processed = Some e, cell_output = hidden, cell_states = new_states\<rparr>"
    by (auto simp: decode_frame_def)
  with shapes le show ?thesis
    by simp
qed

lemma decode_frames_shape:
  fixes cb :: "('r, 'p) collaborators"
  assumes dec: "decoder cb = SocialDecoder cell helper pooling_module output_layer"
    and cell: "cell_contract batch units cell"
    and layer: "layer_contract (coordinates_layer cb)"
    and helper: "helper_contract batch helper"
    and pooling: "pooling_contract batch pooling_module"
    and estimate: "estimate_contract batch (position_estimate cb)"
    and slots: "length (input_data ds) = batch"
  shows "decode_frames cb ds \<rho> frames st = Inr st' \<Longrightarrow>
         has_shape batch units (cell_output st) \<Longrightarrow>
         state_shape batch units (cell_states st) \<Longrightarrow>
         (\<forall>p. new_coordinates_processed st = Some p \<longrightarrow> length p = batch) \<Longrightarrow>
         has_shape batch units (cell_output st') \<and> state_shape batch units (cell_states st')"
proof (induction frames arbitrary: st)
  case Nil
  then show ?case by simp
next
  case (Cons k frames)
  from Cons.prems(1) obtain s1 where
    s1: "decode_frame cb ds \<rho> k st = Inr s1" and
    rest: "decode_frames cb ds \<rho> frames s1 = Inr st'"
    by (auto simp: bind_eq_Inr)
  from Cons.prems(4) have prev: "\<And>p. new_coordinates_processed st = Some p \<Longrightarrow> length p = batch"
    by blast
  from decode_frame_shape
    [OF dec cell layer helper pooling estimate slots s1 Cons.prems(2) Cons.prems(3) prev]
  have "has_shape batch units (cell_output s1)" "state_shape batch units (cell_states s1)"
    "\<forall>p. new_coordinates_processed s1 = Some p \<longrightarrow> length p = batch"
    by blast+
  with Cons.IH [OF rest] show ?case
    by blast
qed

text \<open>
  C5. Before the first frame the hidden output and the two tensors of the state of the
  cell are all-zero tensors of shape [max_num_ped, lstm_size]. With the decoder of the
  spec around a cell that keeps the contract of the LSTM cell, collaborators that return
  one row for every slot, and a dataset of \<open>max_num_ped\<close> slots and
  \<open>trajectory_size\<close> frames, each of the \<open>trajectory_size - 1\<close> transitions is
  reached and leaves the hidden output and the state in that shape.
\<close>

theorem recurrent_state_shape:
  fixes cb :: "('r, 'p) collaborators"
  assumes "decoder cb = SocialDecoder cell helper pooling_module output_layer"
    and "cell_contract (max_num_ped hp) (lstm_size hp) cell"
    and "layer_contract (coordinates_layer cb)"
    and "helper_contract (max_num_ped hp) helper"
    and "pooling_contract (max_num_ped hp) pooling_module"
    and "estimate_contract (max_num_ped hp) (position_estimate cb)"
    and "length (input_data ds) = max_num_ped hp"
    and "has_frames hp ds"
  shows "cell_output (initial_state hp :: 'p loop_state) =
           tf_zeros (max_num_ped hp) (lstm_size hp) \<and>
         cell_states (initial_state hp :: 'p loop_state) =
           LSTMStateTuple (tf_zeros (max_num_ped hp) (lstm_size hp))
             (tf_zeros (max_num_ped hp) (lstm_size hp)) \<and>
         (\<forall>k \<le> nat (trajectory_size hp - 1). \<exists>st.
            state_before hp cb ds \<rho> k = Inr st \<and>
            has_shape (max_num_ped hp) (lstm_size hp) (cell_output st) \<and>
            has_shape (max_num_ped hp) (lstm_size hp) (c_state (cell_states st)) \<and>
            has_shape (max_num_ped hp) (lstm_size hp) (h_state (cell_states st)))"
proof -
  define s0 :: "'p loop_state" where "s0 = initial_state hp"
  have z: "cell_output s0 = tf_zeros (max_num_ped hp) (lstm_size hp)"
    "cell_states s0 = LSTMStateTuple (tf_zeros (max_num_ped hp) (lstm_size hp))
       (tf_zeros (max_num_ped hp) (lstm_size hp))"
    "new_coordinates_processed s0 = None"
    by (simp_all add: s0_def initial_state_def zero_state_def)
  have i: "has_shape (max_num_ped hp) (lstm_size hp) (cell_output s0)"
    "state_shape (max_num_ped hp) (lstm_size hp) (cell_states s0)"
    "\<forall>p. new_coordinates_processed s0 = Some p \<longrightarrow> length p = max_num_ped hp"
    by (simp_all add: z has_shape_zeros state_shape_def)
  have each: "\<exists>st. decode_frames cb ds \<rho> [0..<k] s0 = Inr st \<and>
      has_shape (max_num_ped hp) (lstm_size hp) (cell_output st) \<and>
      has_shape (max_num_ped hp) (lstm_size hp) (c_state (cell_states st)) \<and>
      has_shape (max_num_ped hp) (lstm_size hp) (h_state (cell_states st))"
    if "k \<le> nat (trajectory_size hp - 1)" for k
  proof -
    from that have "k = 0 \<or> int k < trajectory_size hp"
      by auto
    from decode_upto_ok [OF assms(8) this, of cb \<rho> s0] obtain st where
      st: "decode_frames cb ds \<rho> [0..<k] s0 = Inr st" by auto
    from decode_frames_shape [OF assms(1-7) st i] st show ?thesis
      by (auto simp: state_shape_def)
  qed
  from z(1,2) each show ?thesis
    by (simp add: state_before_def s0_def [symmetric])
qed


subsection \<open>The shapes of the run on the small dataset\<close>

lemma idle_cell_contract: "cell_contract batch units idle_cell"
  by (simp add: cell_contract_def idle_cell_def state_shape_def)

lemma zero_layer_contract: "layer_contract (zero_layer units)"
  by (simp add: layer_contract_def zero_layer_def tf_zeros_def)

lemma ground_truth_helper_contract: "helper_contract batch ground_truth_helper"
  by (simp add: helper_contract_def ground_truth_helper_def)

lemma self_feeding_helper_contract: "helper_contract batch self_feeding_helper"
  by (auto simp: helper_contract_def self_feeding_helper_def split: option.splits)

lemma zero_pooling_contract: "pooling_contract batch (Some (zero_pooling width))"
  by (simp add: pooling_contract_def zero_pooling_def tf_zeros_def)

lemma no_pooling_contract: "pooling_contract batch None"
  by (simp add: pooling_contract_def)

lemma verbatim_estimate_contract: "estimate_contract batch verbatim_position_estimate"
  by (simp add: estimate_contract_def verbatim_position_estimate_def layer_contract_def)

theorem recurrent_state_shape_witness:
  "decoder reference_collaborators =
     SocialDecoder idle_cell ground_truth_helper (Some (zero_pooling 4)) (zero_layer output_size) \<and>
   cell_contract (max_num_ped small_hyper) (lstm_size small_hyper) idle_cell \<and>
   layer_contract (coordinates_layer reference_collaborators) \<and>
   helper_contract (max_num_ped small_hyper) (ground_truth_helper :: unit \<Rightarrow> _) \<and>
   pooling_contract (max_num_ped small_hyper) (Some (zero_pooling 4 :: unit \<Rightarrow> _)) \<and>
   estimate_contract (max_num_ped small_hyper) (position_estimate reference_collaborators) \<and>
   length (input_data small_dataset) = max_num_ped small_hyper \<and>
   has_frames small_hyper small_dataset \<and>
   2 \<le> nat (trajectory_size small_hyper - 1) \<and>
   map_sum id cell_output (state_before small_hyper reference_collaborators small_dataset () 2) =
     Inr (tf_zeros 2 4) \<and>
   has_shape (max_num_ped small_hyper) (lstm_size small_hyper) (tf_zeros 2 4)"
proof -
  have d: "decoder reference_collaborators =
      SocialDecoder idle_cell ground_truth_helper (Some (zero_pooling 4)) (zero_layer output_size)"
    by (simp add: reference_collaborators_def)
  have l: "layer_contract (coordinates_layer reference_collaborators)"
    by (simp add: reference_collaborators_def zero_layer_contract)
  have e: "estimate_contract (max_num_ped small_hyper) (position_estimate reference_collaborators)"
    by (simp add: reference_collaborators_def verbatim_estimate_contract)
  have n: "length (input_data small_dataset) = max_num_ped small_hyper"
    by (simp add: small_dataset_def small_trajectories_def small_hyper_def)
  have k: "2 \<le> nat (trajectory_size small_hyper - 1)"
    by (simp add: small_hyper_def)
  have u: "state_before small_hyper reference_collaborators small_dataset () 2 =
      unroll small_hyper reference_collaborators small_dataset ()"
    by (simp add: state_before_def unroll_def py_range_def small_hyper_def)
  from recurrent_state_shape [OF d idle_cell_contract l ground_truth_helper_contract
      zero_pooling_contract e n small_has_frames, of "()"] k
  obtain st where "state_before small_hyper reference_collaborators small_dataset () 2 = Inr st"
    and "has_shape (max_num_ped small_hyper) (lstm_size small_hyper) (cell_output st)"
    by blast
  then show ?thesis
    using d l e n k
    by (auto simp: u reference_unroll_eval idle_cell_contract ground_truth_helper_contract
        zero_pooling_contract small_has_frames)
qed

end
